theory Spec2Isabelle
  imports Complex_Main
begin

section \<open>JavaScript values\<close>

text \<open>
  Values that travel through the seller runtime: what \<^verbatim>\<open>JSON.parse\<close> produces, plus
  \<^verbatim>\<open>undefined\<close>, which property reads produce.  A number is modelled by its numeric value
  (\<^verbatim>\<open>NaN\<close> and the infinities do not occur in parsed descriptors).  A string is a list of
  characters; an object is the list of its own properties.
\<close>

datatype jsval =
    JUndefined
  | JNull
  | JBool bool
  | JNum real
  | JStr string
  | JArr "jsval list"
  | JObj "(string \<times> jsval) list"

text \<open>
  A thrown value: an \<^verbatim>\<open>Error\<close> instance with its \<^verbatim>\<open>name\<close> and \<^verbatim>\<open>message\<close>, or any other
  thrown value, represented by what \<^verbatim>\<open>String(err)\<close> yields for it.
\<close>

datatype js_exn = ErrorObj string string | NonError string

text \<open>The truthiness test of \<^verbatim>\<open>if (v)\<close>, \<^verbatim>\<open>!v\<close> and \<^verbatim>\<open>a && b\<close>.\<close>

fun truthy :: "jsval \<Rightarrow> bool" where
  "truthy JUndefined = False"
| "truthy JNull = False"
| "truthy (JBool b) = b"
| "truthy (JNum n) = (n \<noteq> 0)"
| "truthy (JStr s) = (s \<noteq> [])"
| "truthy (JArr _) = True"
| "truthy (JObj _) = True"

text \<open>The test of \<^verbatim>\<open>??\<close> and \<^verbatim>\<open>?.\<close>: is the value \<^verbatim>\<open>null\<close> or \<^verbatim>\<open>undefined\<close>.\<close>

fun nullish :: "jsval \<Rightarrow> bool" where
  "nullish JUndefined = True"
| "nullish JNull = True"
| "nullish _ = False"

text \<open>
  \<^verbatim>\<open>v.k\<close> on a value that is neither \<^verbatim>\<open>null\<close> nor \<^verbatim>\<open>undefined\<close>, for the property names
  read by this program (\<^verbatim>\<open>name\<close>, \<^verbatim>\<open>description\<close>, \<^verbatim>\<open>jobFee\<close>, \<^verbatim>\<open>requiredFunds\<close>,
  \<^verbatim>\<open>jobOfferingName\<close>, \<^verbatim>\<open>offeringName\<close>, \<^verbatim>\<open>serviceRequirements\<close>): none of them is a
  built-in property of a string, a number, a boolean, an array or a plain object, so the
  read yields the own property of an object and \<^verbatim>\<open>undefined\<close> everywhere else.
\<close>

fun get_prop :: "jsval \<Rightarrow> string \<Rightarrow> jsval" where
  "get_prop (JObj kvs) k = (case map_of kvs k of Some v \<Rightarrow> v | None \<Rightarrow> JUndefined)"
| "get_prop _ k = JUndefined"

text \<open>Optional chaining \<^verbatim>\<open>v?.k\<close>.\<close>

definition opt_prop :: "jsval \<Rightarrow> string \<Rightarrow> jsval" where
  "opt_prop v k = (if nullish v then JUndefined else get_prop v k)"

text \<open>
  \<^verbatim>\<open>err instanceof Error ? err.message : String(err)\<close>, and \<^verbatim>\<open>String(err)\<close> itself
  (\<^verbatim>\<open>Error.prototype.toString\<close> for an \<^verbatim>\<open>Error\<close>).
\<close>

fun error_message :: "js_exn \<Rightarrow> string" where
  "error_message (ErrorObj n m) = m"
| "error_message (NonError s) = s"

fun js_String :: "js_exn \<Rightarrow> string" where
  "js_String (ErrorObj n m) = (if n = [] then m else if m = [] then n else n @ '': '' @ m)"
| "js_String (NonError s) = s"

text \<open>\<^verbatim>\<open>typeof v\<close>.\<close>

fun typeof :: "jsval \<Rightarrow> string" where
  "typeof JUndefined = ''undefined''"
| "typeof JNull = ''object''"
| "typeof (JBool _) = ''boolean''"
| "typeof (JNum _) = ''number''"
| "typeof (JStr _) = ''string''"
| "typeof (JArr _) = ''object''"
| "typeof (JObj _) = ''object''"

text \<open>
  Text (the content of a file, a string value) is modelled by its UTF-8 encoding, a list
  of bytes.  The white space and line terminators of ECMAScript, which \<^verbatim>\<open>trim\<close> removes
  and the class \<^verbatim>\<open>\s\<close> of a regular expression matches, are then these byte sequences:
  U+0009 to U+000D, U+0020, U+00A0, U+1680, U+2000 to U+200A, U+2028, U+2029, U+202F,
  U+205F, U+3000 and U+FEFF.
\<close>

definition js_white_space :: "string list" where
  "js_white_space =
     [[CHR 0x09], [CHR 0x0A], [CHR 0x0B], [CHR 0x0C], [CHR 0x0D], [CHR 0x20],
      [CHR 0xC2, CHR 0xA0],
      [CHR 0xE1, CHR 0x9A, CHR 0x80],
      [CHR 0xE2, CHR 0x80, CHR 0x80], [CHR 0xE2, CHR 0x80, CHR 0x81],
      [CHR 0xE2, CHR 0x80, CHR 0x82], [CHR 0xE2, CHR 0x80, CHR 0x83],
      [CHR 0xE2, CHR 0x80, CHR 0x84], [CHR 0xE2, CHR 0x80, CHR 0x85],
      [CHR 0xE2, CHR 0x80, CHR 0x86], [CHR 0xE2, CHR 0x80, CHR 0x87],
      [CHR 0xE2, CHR 0x80, CHR 0x88], [CHR 0xE2, CHR 0x80, CHR 0x89],
      [CHR 0xE2, CHR 0x80, CHR 0x8A],
      [CHR 0xE2, CHR 0x80, CHR 0xA8], [CHR 0xE2, CHR 0x80, CHR 0xA9],
      [CHR 0xE2, CHR 0x80, CHR 0xAF],
      [CHR 0xE2, CHR 0x81, CHR 0x9F],
      [CHR 0xE3, CHR 0x80, CHR 0x80],
      [CHR 0xEF, CHR 0xBB, CHR 0xBF]]"

text \<open>
  Removing, from the front of a text, every leading occurrence of one of the given
  sequences; \<^verbatim>\<open>trim\<close> does so with the white space at both ends.
\<close>

function strip_prefixes :: "string list \<Rightarrow> string \<Rightarrow> string" where
  "strip_prefixes ws s =
     (case find (\<lambda>w. w \<noteq> [] \<and> take (length w) s = w) ws of
        Some w \<Rightarrow> strip_prefixes ws (drop (length w) s)
      | None \<Rightarrow> s)"
  by pat_completeness auto
termination
proof (relation "measure (\<lambda>(ws, s). length s)")
  show "wf (measure (\<lambda>(ws, s). length s))" by simp
next
  fix ws :: "string list" and s w :: string
  assume "find (\<lambda>w. w \<noteq> [] \<and> take (length w) s = w) ws = Some w"
  then have "w \<noteq> []" and t: "take (length w) s = w"
    by (auto simp add: find_Some_iff)
  from t have "length (take (length w) s) = length w" by simp
  then have "length w \<le> length s" by simp
  with \<open>w \<noteq> []\<close> show "((ws, drop (length w) s), (ws, s)) \<in> measure (\<lambda>(ws, s). length s)"
    by (cases w) auto
qed

declare strip_prefixes.simps [simp del]

definition js_trim :: "string \<Rightarrow> string" where
  "js_trim s =
     rev (strip_prefixes (map rev js_white_space) (rev (strip_prefixes js_white_space s)))"

text \<open>The string behind a value known to be a string, the number behind a number.\<close>

fun str_of :: "jsval \<Rightarrow> string" where
  "str_of (JStr s) = s"
| "str_of _ = []"

fun num_of :: "jsval \<Rightarrow> real" where
  "num_of (JNum n) = n"
| "num_of _ = 0"

text \<open>
  Reading property \<open>k\<close> of \<^verbatim>\<open>null\<close> or \<^verbatim>\<open>undefined\<close> throws a \<^verbatim>\<open>TypeError\<close> (the message is
  the engine's; V8's wording is used).
\<close>

definition property_read_error :: "jsval \<Rightarrow> string \<Rightarrow> js_exn" where
  "property_read_error v k =
     ErrorObj ''TypeError''
       (''Cannot read properties of '' @ (if v = JNull then ''null'' else ''undefined'') @
        '' (reading '' @ [CHR 0x27] @ k @ [CHR 0x27] @ '')'')"

section \<open>The seller runtime: data\<close>

text \<open>
  A job event as \<^verbatim>\<open>handleNewTask\<close> reads it.  Its fields \<^verbatim>\<open>id\<close> and \<^verbatim>\<open>context\<close> are named
  \<open>job_id\<close> and \<open>job_context\<close> here.  The context is an arbitrary value; of a memo only
  \<^verbatim>\<open>nextPhase\<close> and \<^verbatim>\<open>content\<close> are read.
\<close>

datatype AcpJobPhase =
  REQUEST | NEGOTIATION | TRANSACTION | EVALUATION | COMPLETED | REJECTED | EXPIRED

record AcpMemoData =
  nextPhase :: AcpJobPhase
  content :: string

record AcpJobEventData =
  job_id :: int
  phase :: AcpJobPhase
  clientAddress :: string
  price :: real
  job_context :: jsval
  memos :: "AcpMemoData list"

record OfferingConfig =
  name :: string
  description :: string
  jobFee :: real
  requiredFunds :: bool

record FundsRequest =
  amount :: real
  ca :: string
  symbol :: string

datatype Transfer = Transfer string real

record ExecuteJobResult =
  deliverable :: jsval
  transfer :: "Transfer option"

text \<open>
  The handler module of an offering.  Each capability is user code: called on the
  requirements it returns a value or throws.  \<open>'r\<close> is what \<^verbatim>\<open>executeJob\<close> resolves to.
\<close>

record 'r Handlers =
  executeJob :: "jsval \<Rightarrow> js_exn + 'r"
  validateRequirements :: "(jsval \<Rightarrow> js_exn + bool) option"
  requestAdditionalFunds :: "(jsval \<Rightarrow> js_exn + FundsRequest) option"

datatype payment_mode = ModeRequest | ModeTransfer

text \<open>
  What a processing pass does to the outside world, in order: the three seller API calls
  of \<^verbatim>\<open>sellerApi.ts\<close> (which only print their arguments and never throw) and the runtime's
  own console lines, one constructor per message of \<^verbatim>\<open>handleNewTask\<close> (the opening
  banner counts as one).
\<close>

datatype log_line =
    LogNewTask int AcpJobPhase string real jsval
  | LogValidationFailed jsval
  | LogExecuting jsval int
  | LogDelivered int
  | LogErrorProcessing int js_exn
  | LogNoOfferingName
  | LogExecutingTransaction jsval int
  | LogErrorDelivering int js_exn
  | LogSkipTransaction int
  | LogNoAction int AcpJobPhase

datatype event =
    Console log_line
  | AcceptOrRejectJob int bool string
  | RequestPayment int real string payment_mode
  | DeliverJob int jsval "Transfer option"

fun is_action :: "event \<Rightarrow> bool" where
  "is_action (Console _) = False"
| "is_action _ = True"


fun is_payment :: "event \<Rightarrow> bool" where
  "is_payment (RequestPayment _ _ _ _) = True"
| "is_payment _ = False"


definition actions :: "event list \<Rightarrow> event list" where
  "actions evs = filter is_action evs"

section \<open>The seller runtime: extraction\<close>

text \<open>\<^verbatim>\<open>data.context?.jobOfferingName ?? data.context?.offeringName ?? undefined\<close>\<close>

definition resolveOfferingName :: "AcpJobEventData \<Rightarrow> jsval" where
  "resolveOfferingName data =
     (let a = opt_prop (job_context data) ''jobOfferingName'' in
      if \<not> nullish a then a
      else let b = opt_prop (job_context data) ''offeringName'' in
        if \<not> nullish b then b else JUndefined)"

text \<open>
  \<^verbatim>\<open>JSON.parse\<close> is a function of the platform: the model takes it as the parameter
  \<open>parse\<close>, which returns the parsed value or throws.
\<close>

definition resolveServiceRequirements ::
  "(string \<Rightarrow> js_exn + jsval) \<Rightarrow> AcpJobEventData \<Rightarrow> jsval" where
  "resolveServiceRequirements parse data =
     (if truthy (opt_prop (job_context data) ''serviceRequirements'')
      then get_prop (job_context data) ''serviceRequirements''
      else case find (\<lambda>m. nextPhase m = NEGOTIATION) (memos data) of
        Some reqMemo \<Rightarrow>
          if content reqMemo \<noteq> []
          then (case parse (content reqMemo) of
                  Inr v \<Rightarrow> v
                | Inl _ \<Rightarrow> JObj [(''raw'', JStr (content reqMemo))])
          else JObj []
      | None \<Rightarrow> JObj [])"

section \<open>The seller runtime: one processing pass\<close>

text \<open>
  \<^verbatim>\<open>loadOffering\<close> is imported by \<^verbatim>\<open>seller.ts\<close> from a module of its own directory; the
  model takes it as the parameter \<open>load\<close>: it returns the configuration and the handlers of
  the named offering, or throws.

  The body of the \<^verbatim>\<open>try\<close> block of the REQUEST branch is split in two: the events it emits
  come with the exception that ended it, if any.
\<close>

definition accept_and_run ::
  "int \<Rightarrow> jsval \<Rightarrow> OfferingConfig \<Rightarrow> ExecuteJobResult Handlers \<Rightarrow> jsval
     \<Rightarrow> event list \<times> js_exn option" where
  "accept_and_run jobId offeringName config handlers requirements =
     (let accepted = [AcceptOrRejectJob jobId True ''Job accepted''] in
      case (if requiredFunds config
            then (case requestAdditionalFunds handlers of
                    Some f \<Rightarrow>
                      (case f requirements of
                         Inl err \<Rightarrow> Inl err
                       | Inr funds \<Rightarrow>
                           Inr [RequestPayment jobId (amount funds) (ca funds) ModeRequest])
                  | None \<Rightarrow> Inr [])
            else Inr []) of
        Inl err \<Rightarrow> (accepted, Some err)
      | Inr payment \<Rightarrow>
          (case executeJob handlers requirements of
             Inl err \<Rightarrow>
               (accepted @ payment @ [Console (LogExecuting offeringName jobId)], Some err)
           | Inr result \<Rightarrow>
               (accepted @ payment @
                 [Console (LogExecuting offeringName jobId),
                  DeliverJob jobId (deliverable result) (transfer result),
                  Console (LogDelivered jobId)], None)))"

definition request_try ::
  "(jsval \<Rightarrow> js_exn + OfferingConfig \<times> ExecuteJobResult Handlers) \<Rightarrow> int \<Rightarrow> jsval \<Rightarrow> jsval
     \<Rightarrow> event list \<times> js_exn option" where
  "request_try load jobId offeringName requirements =
     (case load offeringName of
        Inl err \<Rightarrow> ([], Some err)
      | Inr (config, handlers) \<Rightarrow>
          (case validateRequirements handlers of
             Some validate \<Rightarrow>
               (case validate requirements of
                  Inl err \<Rightarrow> ([], Some err)
                | Inr valid \<Rightarrow>
                    if \<not> valid
                    then ([Console (LogValidationFailed offeringName),
                           AcceptOrRejectJob jobId False ''Validation failed''], None)
                    else accept_and_run jobId offeringName config handlers requirements)
           | None \<Rightarrow> accept_and_run jobId offeringName config handlers requirements))"

definition transaction_try ::
  "(jsval \<Rightarrow> js_exn + OfferingConfig \<times> ExecuteJobResult Handlers) \<Rightarrow> int \<Rightarrow> jsval \<Rightarrow> jsval
     \<Rightarrow> event list \<times> js_exn option" where
  "transaction_try load jobId offeringName requirements =
     (case load offeringName of
        Inl err \<Rightarrow> ([], Some err)
      | Inr (config, handlers) \<Rightarrow>
          (case executeJob handlers requirements of
             Inl err \<Rightarrow> ([Console (LogExecutingTransaction offeringName jobId)], Some err)
           | Inr result \<Rightarrow>
               ([Console (LogExecutingTransaction offeringName jobId),
                 DeliverJob jobId (deliverable result) (transfer result),
                 Console (LogDelivered jobId)], None)))"

definition handleNewTask ::
  "(jsval \<Rightarrow> js_exn + OfferingConfig \<times> ExecuteJobResult Handlers)
     \<Rightarrow> (string \<Rightarrow> js_exn + jsval) \<Rightarrow> AcpJobEventData \<Rightarrow> event list" where
  "handleNewTask load parse data =
     (let jobId = job_id data;
          banner = Console (LogNewTask jobId (phase data) (clientAddress data) (price data)
                              (job_context data))
      in
      if phase data = REQUEST then
        (let offeringName = resolveOfferingName data;
             requirements = resolveServiceRequirements parse data
         in
         if truthy offeringName then
           (case request_try load jobId offeringName requirements of
              (evs, None) \<Rightarrow> banner # evs
            | (evs, Some err) \<Rightarrow>
                banner # evs @
                  [Console (LogErrorProcessing jobId err),
                   AcceptOrRejectJob jobId False (''Handler error: '' @ error_message err)])
         else
           [banner, Console LogNoOfferingName,
            AcceptOrRejectJob jobId True ''Accepted (no offering matched)''])
      else if phase data = TRANSACTION then
        (let offeringName = resolveOfferingName data;
             requirements = resolveServiceRequirements parse data
         in
         if truthy offeringName then
           (case transaction_try load jobId offeringName requirements of
              (evs, None) \<Rightarrow> banner # evs
            | (evs, Some err) \<Rightarrow> banner # evs @ [Console (LogErrorDelivering jobId err)])
         else [banner, Console (LogSkipTransaction jobId)])
      else [banner, Console (LogNoAction jobId (phase data))])"

section \<open>The platform\<close>

text \<open>
  The file system, the path functions, \<^verbatim>\<open>JSON.parse\<close> and the module loader are functions
  of the platform: the model takes them as the fields of a record.  \<open>path_resolve\<close> and
  \<open>path_join\<close> are \<^verbatim>\<open>path.resolve\<close> and \<^verbatim>\<open>path.join\<close> on their list of segments, and \<open>cwd\<close>
  is \<^verbatim>\<open>process.cwd()\<close>.  A module is what it exports under the three names the program
  reads.  For \<^verbatim>\<open>executeJob\<close>, \<open>None\<close> is an export that is not a function.  For the two
  others, which the program tests for truth, \<open>None\<close> is an absent or falsy export; a truthy
  export that is not a function is a handler that throws when called.

  \<open>import_module\<close> is the loading of a module from storage.  The loader of the process
  keeps what it has loaded: \<^verbatim>\<open>import(path)\<close> of a module already loaded is served from that
  cache and loads nothing, whatever the file holds by then.  Whether an import that threw
  is tried again differs with the kind of failure; \<open>failed_import_kept\<close> says it for each
  exception.
\<close>

record 'r ModuleExports =
  export_executeJob :: "(jsval \<Rightarrow> js_exn + 'r) option"
  export_validateRequirements :: "(jsval \<Rightarrow> js_exn + bool) option"
  export_requestAdditionalFunds :: "(jsval \<Rightarrow> js_exn + FundsRequest) option"

record 'r world =
  cwd :: string
  path_resolve :: "string list \<Rightarrow> string"
  path_join :: "string list \<Rightarrow> string"
  existsSync :: "string \<Rightarrow> bool"
  readFileSync :: "string \<Rightarrow> js_exn + string"
  JSON_parse :: "string \<Rightarrow> js_exn + jsval"
  import_module :: "string \<Rightarrow> js_exn + 'r ModuleExports"
  failed_import_kept :: "js_exn \<Rightarrow> bool"

type_synonym 'r module_cache = "string \<Rightarrow> (js_exn + 'r ModuleExports) option"

text \<open>
  The storage operations a call performs are recorded in order; \<open>IoImport\<close> is the
  loading of a module from storage.
\<close>

datatype io = IoExists string | IoRead string | IoImport string

text \<open>\<^verbatim>\<open>await import(path)\<close>: the operations, the outcome and the cache afterwards.\<close>

definition dynamic_import ::
  "'r world \<Rightarrow> 'r module_cache \<Rightarrow> string
     \<Rightarrow> io list \<times> (js_exn + 'r ModuleExports) \<times> 'r module_cache" where
  "dynamic_import w cache path =
     (case cache path of
        Some outcome \<Rightarrow> ([], outcome, cache)
      | None \<Rightarrow>
          (case import_module w path of
             Inr exports \<Rightarrow> ([IoImport path], Inr exports, cache(path \<mapsto> Inr exports))
           | Inl err \<Rightarrow>
               ([IoImport path], Inl err,
                if failed_import_kept w err then cache(path \<mapsto> Inl err) else cache)))"

section \<open>The job processing script (process-job.ts)\<close>

text \<open>
  The three paths of \<^verbatim>\<open>loadOffering\<close>, under the names of its local constants.
\<close>

definition offeringsDir :: "'r world \<Rightarrow> string \<Rightarrow> string" where
  "offeringsDir w offeringName = path_resolve w [cwd w, ''offerings'', offeringName]"

definition configPath :: "'r world \<Rightarrow> string \<Rightarrow> string" where
  "configPath w offeringName = path_join w [offeringsDir w offeringName, ''offering.json'']"

definition handlersPath :: "'r world \<Rightarrow> string \<Rightarrow> string" where
  "handlersPath w offeringName = path_join w [offeringsDir w offeringName, ''handlers.ts'']"

text \<open>
  The handler set handed on once \<^verbatim>\<open>executeJob\<close> is known to be a function: the module
  itself.
\<close>

definition as_handlers :: "(jsval \<Rightarrow> js_exn + 'r) \<Rightarrow> 'r ModuleExports \<Rightarrow> 'r Handlers" where
  "as_handlers execute exports =
     \<lparr>executeJob = execute,
      validateRequirements = export_validateRequirements exports,
      requestAdditionalFunds = export_requestAdditionalFunds exports\<rparr>"

text \<open>
  \<^verbatim>\<open>loadOffering\<close> returns the parsed \<^verbatim>\<open>offering.json\<close>, unchecked, and the handler module,
  or throws.  The model takes the module cache of the process and returns, with the
  outcome, the storage operations performed and the cache afterwards.
\<close>

definition loadOffering ::
  "'r world \<Rightarrow> 'r module_cache \<Rightarrow> string
     \<Rightarrow> io list \<times> (js_exn + jsval \<times> 'r Handlers) \<times> 'r module_cache" where
  "loadOffering w cache offeringName =
     (let dir = offeringsDir w offeringName;
          config_path = configPath w offeringName;
          handlers_path = handlersPath w offeringName
      in
      if \<not> existsSync w dir then
        ([IoExists dir],
         Inl (ErrorObj ''Error'' (''Offering directory not found: '' @ dir)), cache)
      else if \<not> existsSync w config_path then
        ([IoExists dir, IoExists config_path],
         Inl (ErrorObj ''Error'' (''offering.json not found: '' @ config_path)), cache)
      else
        (case readFileSync w config_path of
           Inl err \<Rightarrow> ([IoExists dir, IoExists config_path, IoRead config_path], Inl err, cache)
         | Inr text \<Rightarrow>
             (case JSON_parse w text of
                Inl err \<Rightarrow>
                  ([IoExists dir, IoExists config_path, IoRead config_path], Inl err, cache)
              | Inr config \<Rightarrow>
                  if \<not> existsSync w handlers_path then
                    ([IoExists dir, IoExists config_path, IoRead config_path,
                      IoExists handlers_path],
                     Inl (ErrorObj ''Error'' (''handlers.ts not found: '' @ handlers_path)),
                     cache)
                  else
                    (case dynamic_import w cache handlers_path of
                       (ops, Inl err, cache') \<Rightarrow>
                         ([IoExists dir, IoExists config_path, IoRead config_path,
                           IoExists handlers_path] @ ops, Inl err, cache')
                     | (ops, Inr exports, cache') \<Rightarrow>
                         (case export_executeJob exports of
                            None \<Rightarrow>
                              ([IoExists dir, IoExists config_path, IoRead config_path,
                                IoExists handlers_path] @ ops,
                               Inl (ErrorObj ''Error''
                                      ''handlers.ts must export an executeJob function''),
                               cache')
                          | Some execute \<Rightarrow>
                              ([IoExists dir, IoExists config_path, IoRead config_path,
                                IoExists handlers_path] @ ops,
                               Inr (config, as_handlers execute exports), cache'))))))"

text \<open>
  The four protocol stubs of the script, which print and return.  The other console
  lines of \<^verbatim>\<open>processJob\<close> are left out, except that the first of them reads
  \<^verbatim>\<open>config.name\<close>, which throws when the descriptor is \<^verbatim>\<open>null\<close>.  The job id, drawn from
  the clock and the random generator, is a parameter, and so is the module cache of the
  process at the call.  A run yields the calls made and the exception that ended it, if
  any.
\<close>

datatype acp_call =
    Accept string
  | RequestFundsMemo string jsval real "(string \<times> string) option"
  | Deliver string string
  | Reject string string

definition execute_and_deliver ::
  "string \<Rightarrow> jsval \<Rightarrow> string Handlers \<Rightarrow> jsval \<Rightarrow> real \<Rightarrow> (string \<times> string) option
     \<Rightarrow> acp_call list" where
  "execute_and_deliver jobId config handlers jobRequest additionalFunds token =
     RequestFundsMemo jobId (get_prop config ''jobFee'') additionalFunds token #
     (case executeJob handlers jobRequest of
        Inr result \<Rightarrow> [Deliver jobId result]
      | Inl error \<Rightarrow> [Reject jobId (''Execution error: '' @ js_String error)])"

definition accept_and_fund ::
  "string \<Rightarrow> jsval \<Rightarrow> string Handlers \<Rightarrow> jsval \<Rightarrow> acp_call list \<times> js_exn option" where
  \<open>accept_and_fund jobId config handlers jobRequest =
     (if truthy (get_prop config ''requiredFunds'') then
        (case requestAdditionalFunds handlers of
           None \<Rightarrow>
             ([Accept jobId,
               Reject jobId
                 ''Offering requires funds but "requestAdditionalFunds" is missing''], None)
         | Some f \<Rightarrow>
             (case f jobRequest of
                Inl err \<Rightarrow> ([Accept jobId], Some err)
              | Inr funds \<Rightarrow>
                  (Accept jobId #
                   execute_and_deliver jobId config handlers jobRequest (amount funds)
                     (if ca funds \<noteq> [] \<and> symbol funds \<noteq> []
                      then Some (ca funds, symbol funds) else None),
                   None)))
      else
        (case requestAdditionalFunds handlers of
           Some f \<Rightarrow>
             ([Accept jobId,
               Reject jobId
                 ''Offering does not require funds but "requestAdditionalFunds" was provided''],
              None)
         | None \<Rightarrow>
             (Accept jobId # execute_and_deliver jobId config handlers jobRequest 0 None,
              None)))\<close>

definition processJob ::
  "string world \<Rightarrow> string module_cache \<Rightarrow> string \<Rightarrow> string \<Rightarrow> jsval
     \<Rightarrow> acp_call list \<times> js_exn option" where
  "processJob w cache jobId offeringName jobRequest =
     (case loadOffering w cache offeringName of
        (ops, Inl err, cache') \<Rightarrow> ([], Some err)
      | (ops, Inr (config, handlers), cache') \<Rightarrow>
          if nullish config then ([], Some (property_read_error config ''name''))
          else
            (case validateRequirements handlers of
               Some validate \<Rightarrow>
                 (case validate jobRequest of
                    Inl err \<Rightarrow> ([], Some err)
                  | Inr isValid \<Rightarrow>
                      if \<not> isValid
                      then ([Reject jobId ''Job request failed validation''], None)
                      else accept_and_fund jobId config handlers jobRequest)
             | None \<Rightarrow> accept_and_fund jobId config handlers jobRequest))"

section \<open>Offering validation of the command line (acp sell create)\<close>

subsection \<open>Regular expressions\<close>

text \<open>
  The patterns of \<^verbatim>\<open>validateHandlers\<close> use literal characters, \<^verbatim>\<open>\s\<close>, \<^verbatim>\<open>[^}]\<close>, grouping,
  \<^verbatim>\<open>?\<close>, \<^verbatim>\<open>*\<close> and \<^verbatim>\<open>+\<close>.  \<^verbatim>\<open>pattern.test(content)\<close> holds when some substring of the
  content matches: the search tries every start position, and at each one looks for a
  matching prefix, here by derivatives of the expression.  On encoded text \<^verbatim>\<open>[^}]\<close> is any
  byte but the closing brace: no byte of a longer character equals it, so a run of
  \<^verbatim>\<open>[^}]\<close> is a run of such bytes.
\<close>

datatype rx = NoMatch | Eps | Chr char | NotRBrace | Alt rx rx | Seq rx rx | Star rx

fun rx_nullable :: "rx \<Rightarrow> bool" where
  "rx_nullable NoMatch = False"
| "rx_nullable Eps = True"
| "rx_nullable (Chr _) = False"
| "rx_nullable NotRBrace = False"
| "rx_nullable (Alt r s) = (rx_nullable r \<or> rx_nullable s)"
| "rx_nullable (Seq r s) = (rx_nullable r \<and> rx_nullable s)"
| "rx_nullable (Star _) = True"

definition rx_seq :: "rx \<Rightarrow> rx \<Rightarrow> rx" where
  "rx_seq r s = (if r = NoMatch then NoMatch else if r = Eps then s else Seq r s)"

definition rx_alt :: "rx \<Rightarrow> rx \<Rightarrow> rx" where
  "rx_alt r s = (if r = NoMatch then s else if s = NoMatch then r else Alt r s)"

fun rx_deriv :: "char \<Rightarrow> rx \<Rightarrow> rx" where
  "rx_deriv c NoMatch = NoMatch"
| "rx_deriv c Eps = NoMatch"
| "rx_deriv c (Chr d) = (if c = d then Eps else NoMatch)"
| "rx_deriv c NotRBrace = (if c \<noteq> CHR ''}'' then Eps else NoMatch)"
| "rx_deriv c (Alt r s) = rx_alt (rx_deriv c r) (rx_deriv c s)"
| "rx_deriv c (Seq r s) =
     (if rx_nullable r then rx_alt (rx_seq (rx_deriv c r) s) (rx_deriv c s)
      else rx_seq (rx_deriv c r) s)"
| "rx_deriv c (Star r) = rx_seq (rx_deriv c r) (Star r)"

fun matches_prefix :: "rx \<Rightarrow> string \<Rightarrow> bool" where
  "matches_prefix r [] = rx_nullable r"
| "matches_prefix r (c # cs) =
     (rx_nullable r \<or> (r \<noteq> NoMatch \<and> matches_prefix (rx_deriv c r) cs))"

fun rx_test :: "rx \<Rightarrow> string \<Rightarrow> bool" where
  "rx_test r [] = matches_prefix r []"
| "rx_test r (c # cs) = (matches_prefix r (c # cs) \<or> rx_test r cs)"

text \<open>
  What the search decides, said with the words an expression matches: a pattern is found
  in a text when some substring of the text is a word of the expression.
\<close>

inductive_set repetitions :: "string set \<Rightarrow> string set" for A :: "string set" where
  none: "[] \<in> repetitions A"
| more: "u \<in> A \<Longrightarrow> v \<in> repetitions A \<Longrightarrow> u @ v \<in> repetitions A"

fun words :: "rx \<Rightarrow> string set" where
  "words NoMatch = {}"
| "words Eps = {[]}"
| "words (Chr c) = {[c]}"
| "words NotRBrace = {[c] | c. c \<noteq> CHR ''}''}"
| "words (Alt r s) = words r \<union> words s"
| "words (Seq r s) = {u @ v | u v. u \<in> words r \<and> v \<in> words s}"
| "words (Star r) = repetitions (words r)"

definition lit :: "string \<Rightarrow> rx" where
  "lit s = foldr (\<lambda>c r. Seq (Chr c) r) s Eps"

text \<open>The class \<^verbatim>\<open>\s\<close>: one white space, whichever.\<close>

definition Space :: rx where
  "Space = foldr (\<lambda>w r. Alt (lit w) r) js_white_space NoMatch"

definition one_or_more :: "rx \<Rightarrow> rx" where
  "one_or_more r = Seq r (Star r)"

definition optional :: "rx \<Rightarrow> rx" where
  "optional r = Alt r Eps"

definition seqs :: "rx list \<Rightarrow> rx" where
  "seqs rs = foldr Seq rs Eps"

definition executeJobPatterns :: "rx list" where
  "executeJobPatterns =
    [seqs [lit ''export'', one_or_more Space,
           optional (Seq (lit ''async'') (one_or_more Space)),
           lit ''function'', one_or_more Space, lit ''executeJob'', Star Space, lit ''(''],
     seqs [lit ''export'', one_or_more Space, lit ''const'', one_or_more Space,
           lit ''executeJob'', Star Space, lit ''='', Star Space,
           optional (Seq (lit ''async'') (Star Space)), lit ''(''],
     seqs [lit ''export'', one_or_more Space, lit ''const'', one_or_more Space,
           lit ''executeJob'', Star Space, lit ''='', Star Space,
           optional (Seq (lit ''async'') (Star Space)), lit ''function''],
     seqs [lit ''export'', Star Space, lit ''{'', Star Space, Star NotRBrace,
           lit ''executeJob'', Star NotRBrace, lit ''}'']]"

definition validateRequirementsPatterns :: "rx list" where
  "validateRequirementsPatterns =
    [seqs [lit ''export'', one_or_more Space,
           optional (Seq (lit ''async'') (one_or_more Space)),
           lit ''function'', one_or_more Space, lit ''validateRequirements'', Star Space,
           lit ''(''],
     seqs [lit ''export'', one_or_more Space, lit ''const'', one_or_more Space,
           lit ''validateRequirements'', Star Space, lit ''=''],
     seqs [lit ''export'', Star Space, lit ''{'', Star Space, Star NotRBrace,
           lit ''validateRequirements'', Star NotRBrace, lit ''}'']]"

definition requestAdditionalFundsPatterns :: "rx list" where
  "requestAdditionalFundsPatterns =
    [seqs [lit ''export'', one_or_more Space,
           optional (Seq (lit ''async'') (one_or_more Space)),
           lit ''function'', one_or_more Space, lit ''requestAdditionalFunds'', Star Space,
           lit ''(''],
     seqs [lit ''export'', one_or_more Space, lit ''const'', one_or_more Space,
           lit ''requestAdditionalFunds'', Star Space, lit ''=''],
     seqs [lit ''export'', Star Space, lit ''{'', Star Space, Star NotRBrace,
           lit ''requestAdditionalFunds'', Star NotRBrace, lit ''}'']]"

text \<open>\<^verbatim>\<open>patterns.some((p) => p.test(content))\<close> on the content \<open>source\<close> of the file\<close>

definition some_test :: "rx list \<Rightarrow> string \<Rightarrow> bool" where
  "some_test patterns source = list_ex (\<lambda>p. rx_test p source) patterns"

subsection \<open>Validation results\<close>

record ValidationResult =
  valid :: bool
  errors :: "string list"
  warnings :: "string list"

text \<open>\<^verbatim>\<open>result.valid = false; result.errors.push(msg)\<close> and \<^verbatim>\<open>result.warnings.push(msg)\<close>\<close>

definition push_error :: "string \<Rightarrow> ValidationResult \<Rightarrow> ValidationResult" where
  "push_error msg result = result\<lparr>valid := False, errors := errors result @ [msg]\<rparr>"

definition push_warning :: "string \<Rightarrow> ValidationResult \<Rightarrow> ValidationResult" where
  "push_warning msg result = result\<lparr>warnings := warnings result @ [msg]\<rparr>"

subsection \<open>The descriptor: \<^verbatim>\<open>validateOfferingJson\<close> of the sell command\<close>

text \<open>
  The four field checks run one after the other on the parsed descriptor, each adding to
  the same result.
\<close>

definition check_name :: "jsval \<Rightarrow> ValidationResult \<Rightarrow> ValidationResult" where
  \<open>check_name json result =
     (if \<not> truthy (get_prop json ''name'') \<or> typeof (get_prop json ''name'') \<noteq> ''string''
         \<or> js_trim (str_of (get_prop json ''name'')) = []
      then push_error ''"name" field is required (non-empty string)'' result
      else result)\<close>

definition check_description :: "jsval \<Rightarrow> ValidationResult \<Rightarrow> ValidationResult" where
  \<open>check_description json result =
     (if \<not> truthy (get_prop json ''description'')
         \<or> typeof (get_prop json ''description'') \<noteq> ''string''
         \<or> js_trim (str_of (get_prop json ''description'')) = []
      then push_error ''"description" field is required (non-empty string)'' result
      else result)\<close>

definition check_jobFee :: "jsval \<Rightarrow> ValidationResult \<Rightarrow> ValidationResult" where
  \<open>check_jobFee json result =
     (if get_prop json ''jobFee'' = JUndefined \<or> get_prop json ''jobFee'' = JNull
      then push_error ''"jobFee" field is required (number)'' result
      else if typeof (get_prop json ''jobFee'') \<noteq> ''number''
              \<or> num_of (get_prop json ''jobFee'') < 0
      then push_error ''"jobFee" must be a non-negative number'' result
      else result)\<close>

definition check_requiredFunds :: "jsval \<Rightarrow> ValidationResult \<Rightarrow> ValidationResult" where
  \<open>check_requiredFunds json result =
     (if get_prop json ''requiredFunds'' = JUndefined \<or> get_prop json ''requiredFunds'' = JNull
      then push_error ''"requiredFunds" field is required (boolean)'' result
      else if typeof (get_prop json ''requiredFunds'') \<noteq> ''boolean''
      then push_error ''"requiredFunds" must be a boolean'' result
      else result)\<close>

definition validateOfferingJson :: "'r world \<Rightarrow> string \<Rightarrow> js_exn + ValidationResult" where
  "validateOfferingJson w filePath =
     (let result = \<lparr>valid = True, errors = [], warnings = []\<rparr> in
      if \<not> existsSync w filePath
      then Inr (push_error (''offering.json not found at '' @ filePath) result)
      else
        (case (case readFileSync w filePath of
                 Inl err \<Rightarrow> Inl err
               | Inr text \<Rightarrow> JSON_parse w text) of
           Inl err \<Rightarrow>
             Inr (push_error (''Invalid JSON in offering.json: '' @ js_String err) result)
         | Inr json \<Rightarrow>
             if nullish json then Inl (property_read_error json ''name'')
             else Inr (check_requiredFunds json (check_jobFee json
                        (check_description json (check_name json result))))))"

subsection \<open>The descriptor: \<^verbatim>\<open>validateOfferingJson\<close> of seller\_cli.ts\<close>

definition cli_check_name :: "jsval \<Rightarrow> ValidationResult \<Rightarrow> ValidationResult" where
  \<open>cli_check_name json result =
     (if \<not> truthy (get_prop json ''name'') \<or> typeof (get_prop json ''name'') \<noteq> ''string''
      then push_error ''offering.json must have a "name" field (string)'' result
      else if js_trim (str_of (get_prop json ''name'')) = []
      then push_error ''"name" field cannot be empty'' result
      else result)\<close>

definition cli_check_description :: "jsval \<Rightarrow> ValidationResult \<Rightarrow> ValidationResult" where
  \<open>cli_check_description json result =
     (if \<not> truthy (get_prop json ''description'')
         \<or> typeof (get_prop json ''description'') \<noteq> ''string''
      then push_error ''offering.json must have a "description" field (string)'' result
      else if js_trim (str_of (get_prop json ''description'')) = []
      then push_error ''"description" field cannot be empty'' result
      else result)\<close>

definition cli_check_jobFee :: "jsval \<Rightarrow> ValidationResult \<Rightarrow> ValidationResult" where
  \<open>cli_check_jobFee json result =
     (if get_prop json ''jobFee'' = JUndefined \<or> get_prop json ''jobFee'' = JNull
      then push_error ''offering.json must have a "jobFee" field (number)'' result
      else if typeof (get_prop json ''jobFee'') \<noteq> ''number''
      then push_error ''"jobFee" must be a number'' result
      else if num_of (get_prop json ''jobFee'') < 0
      then push_error ''"jobFee" must be a non-negative number'' result
      else result)\<close>

text \<open>
  The dash of the message below is U+2014 in the source; it is written here as the
  three bytes of its UTF-8 encoding.
\<close>

definition cli_check_requiredFunds :: "jsval \<Rightarrow> ValidationResult \<Rightarrow> ValidationResult" where
  \<open>cli_check_requiredFunds json result =
     (if get_prop json ''requiredFunds'' = JUndefined \<or> get_prop json ''requiredFunds'' = JNull
      then push_error
             (''offering.json must have a "requiredFunds" field (boolean) '' @
              [CHR 0xE2, CHR 0x80, CHR 0x94] @ '' explicitly set true or false'') result
      else if typeof (get_prop json ''requiredFunds'') \<noteq> ''boolean''
      then push_error ''"requiredFunds" must be a boolean'' result
      else result)\<close>

definition validateOfferingJson_cli :: "'r world \<Rightarrow> string \<Rightarrow> js_exn + ValidationResult" where
  "validateOfferingJson_cli w filePath =
     (let result = \<lparr>valid = True, errors = [], warnings = []\<rparr> in
      if \<not> existsSync w filePath
      then Inr (push_error (''offering.json not found at '' @ filePath) result)
      else
        (case readFileSync w filePath of
           Inl err \<Rightarrow>
             Inr (push_error (''Failed to read offering.json: '' @ js_String err) result)
         | Inr text \<Rightarrow>
             (case JSON_parse w text of
                Inl err \<Rightarrow>
                  Inr (push_error (''Invalid JSON in offering.json: '' @ js_String err) result)
              | Inr json \<Rightarrow>
                  if nullish json then Inl (property_read_error json ''name'')
                  else Inr (cli_check_requiredFunds json (cli_check_jobFee json
                             (cli_check_description json (cli_check_name json result)))))))"

subsection \<open>The handlers: \<^verbatim>\<open>validateHandlers\<close> of the sell command\<close>

text \<open>
  \<open>requiredFunds\<close> is \<^verbatim>\<open>parsedOffering?.requiredFunds\<close>: a boolean when the descriptor
  is valid, \<^verbatim>\<open>undefined\<close> when it is not.  The file is read outside any \<^verbatim>\<open>try\<close>.
\<close>

definition validateHandlers :: "'r world \<Rightarrow> string \<Rightarrow> jsval \<Rightarrow> js_exn + ValidationResult" where
  \<open>validateHandlers w filePath requiredFunds_arg =
     (let result = \<lparr>valid = True, errors = [], warnings = []\<rparr> in
      if \<not> existsSync w filePath
      then Inr (push_error (''handlers.ts not found at '' @ filePath) result)
      else
        (case readFileSync w filePath of
           Inl err \<Rightarrow> Inl err
         | Inr source \<Rightarrow>
             (let r1 = (if \<not> some_test executeJobPatterns source
                        then push_error ''handlers.ts must export an "executeJob" function''
                               result
                        else result);
                  hasValidate = some_test validateRequirementsPatterns source;
                  hasFunds = some_test requestAdditionalFundsPatterns source;
                  r2 = (if \<not> hasValidate
                        then push_warning
                               ''Optional: "validateRequirements" handler not found.'' r1
                        else r1);
                  r3 = (if requiredFunds_arg = JBool True \<and> \<not> hasFunds
                        then push_error
                               (''"requiredFunds" is true '' @ [CHR 0xE2, CHR 0x80, CHR 0x94] @
                                '' handlers.ts must export "requestAdditionalFunds"'') r2
                        else r2);
                  r4 = (if requiredFunds_arg = JBool False \<and> hasFunds
                        then push_error
                               (''"requiredFunds" is false '' @ [CHR 0xE2, CHR 0x80, CHR 0x94] @
                                '' handlers.ts must NOT export "requestAdditionalFunds"'') r3
                        else r3)
              in Inr r4)))\<close>

subsection \<open>The validation stage of \<^verbatim>\<open>create\<close>\<close>

text \<open>
  Once the offering directory is found, \<^verbatim>\<open>create\<close> validates the descriptor, then the
  handlers, collects the errors and the warnings of both, and goes on to register the
  offering when no error was collected; otherwise it prints them all and stops.  The
  result is the pair of the two lists.
\<close>

definition create_validate :: "'r world \<Rightarrow> string \<Rightarrow> js_exn + string list \<times> string list" where
  "create_validate w dir =
     (let jsonPath = path_join w [dir, ''offering.json''];
          handlers_path = path_join w [dir, ''handlers.ts'']
      in
      case validateOfferingJson w jsonPath of
        Inl err \<Rightarrow> Inl err
      | Inr jsonResult \<Rightarrow>
          (case (if valid jsonResult
                 then (case readFileSync w jsonPath of
                         Inl err \<Rightarrow> Inl err
                       | Inr text \<Rightarrow> JSON_parse w text)
                 else Inr JNull) of
             Inl err \<Rightarrow> Inl err
           | Inr parsedOffering \<Rightarrow>
               (case validateHandlers w handlers_path (opt_prop parsedOffering ''requiredFunds'')
                of
                  Inl err \<Rightarrow> Inl err
                | Inr handlersResult \<Rightarrow>
                    Inr (errors jsonResult @ errors handlersResult,
                         warnings jsonResult @ warnings handlersResult))))"

section \<open>Notions used to state the properties\<close>

text \<open>
  The validation step lets the job through: there is no \<^verbatim>\<open>validateRequirements\<close>, or it
  returns \<^verbatim>\<open>true\<close>.
\<close>

definition validation_passes :: "'r Handlers \<Rightarrow> jsval \<Rightarrow> bool" where
  "validation_passes handlers requirements =
     (case validateRequirements handlers of
        None \<Rightarrow> True
      | Some validate \<Rightarrow> validate requirements = Inr True)"

text \<open>
  The payment step of \<^verbatim>\<open>handleNewTask\<close> does not throw: it is skipped, or
  \<^verbatim>\<open>requestAdditionalFunds\<close> returns.
\<close>

definition funds_step_returns :: "OfferingConfig \<Rightarrow> 'r Handlers \<Rightarrow> jsval \<Rightarrow> bool" where
  "funds_step_returns config handlers requirements =
     (if requiredFunds config
      then (case requestAdditionalFunds handlers of
              None \<Rightarrow> True
            | Some f \<Rightarrow> (case f requirements of Inl _ \<Rightarrow> False | Inr _ \<Rightarrow> True))
      else True)"

text \<open>
  The extraction of the requirements as the specification words it: the memo consulted
  is the most recent one whose next phase is NEGOTIATION, that is the last such memo of
  the append-only sequence.
\<close>

definition spec_resolveServiceRequirements ::
  "(string \<Rightarrow> js_exn + jsval) \<Rightarrow> AcpJobEventData \<Rightarrow> jsval" where
  "spec_resolveServiceRequirements parse data =
     (if truthy (opt_prop (job_context data) ''serviceRequirements'')
      then get_prop (job_context data) ''serviceRequirements''
      else case find (\<lambda>m. nextPhase m = NEGOTIATION) (rev (memos data)) of
        Some reqMemo \<Rightarrow>
          if content reqMemo \<noteq> []
          then (case parse (content reqMemo) of
                  Inr v \<Rightarrow> v
                | Inl _ \<Rightarrow> JObj [(''raw'', JStr (content reqMemo))])
          else JObj []
      | None \<Rightarrow> JObj [])"

text \<open>
  The field-level rules of a descriptor, as the specification lists them, and the rules
  that a parsed descriptor violates, field by field.
\<close>

datatype field_rule =
    NameRequired | NameEmpty
  | DescriptionRequired | DescriptionEmpty
  | JobFeeRequired | JobFeeNotNumber | JobFeeNegative
  | RequiredFundsRequired | RequiredFundsNotBoolean

definition name_violations :: "jsval \<Rightarrow> field_rule list" where
  "name_violations json =
     (case get_prop json ''name'' of
        JStr s \<Rightarrow> if s = [] then [NameRequired] else if js_trim s = [] then [NameEmpty] else []
      | _ \<Rightarrow> [NameRequired])"

definition description_violations :: "jsval \<Rightarrow> field_rule list" where
  "description_violations json =
     (case get_prop json ''description'' of
        JStr s \<Rightarrow>
          if s = [] then [DescriptionRequired]
          else if js_trim s = [] then [DescriptionEmpty] else []
      | _ \<Rightarrow> [DescriptionRequired])"

definition jobFee_violations :: "jsval \<Rightarrow> field_rule list" where
  "jobFee_violations json =
     (case get_prop json ''jobFee'' of
        JUndefined \<Rightarrow> [JobFeeRequired]
      | JNull \<Rightarrow> [JobFeeRequired]
      | JNum n \<Rightarrow> if n < 0 then [JobFeeNegative] else []
      | _ \<Rightarrow> [JobFeeNotNumber])"

definition requiredFunds_violations :: "jsval \<Rightarrow> field_rule list" where
  "requiredFunds_violations json =
     (case get_prop json ''requiredFunds'' of
        JUndefined \<Rightarrow> [RequiredFundsRequired]
      | JNull \<Rightarrow> [RequiredFundsRequired]
      | JBool b \<Rightarrow> []
      | _ \<Rightarrow> [RequiredFundsNotBoolean])"

definition violated_rules :: "jsval \<Rightarrow> field_rule list" where
  "violated_rules json =
     name_violations json @ description_violations json @ jobFee_violations json @
     requiredFunds_violations json"

text \<open>The message each version of \<^verbatim>\<open>validateOfferingJson\<close> reports for a violated rule.\<close>

fun sell_message :: "field_rule \<Rightarrow> string" where
  \<open>sell_message NameRequired = ''"name" field is required (non-empty string)''\<close>
| \<open>sell_message NameEmpty = ''"name" field is required (non-empty string)''\<close>
| \<open>sell_message DescriptionRequired = ''"description" field is required (non-empty string)''\<close>
| \<open>sell_message DescriptionEmpty = ''"description" field is required (non-empty string)''\<close>
| \<open>sell_message JobFeeRequired = ''"jobFee" field is required (number)''\<close>
| \<open>sell_message JobFeeNotNumber = ''"jobFee" must be a non-negative number''\<close>
| \<open>sell_message JobFeeNegative = ''"jobFee" must be a non-negative number''\<close>
| \<open>sell_message RequiredFundsRequired = ''"requiredFunds" field is required (boolean)''\<close>
| \<open>sell_message RequiredFundsNotBoolean = ''"requiredFunds" must be a boolean''\<close>

fun cli_message :: "field_rule \<Rightarrow> string" where
  \<open>cli_message NameRequired = ''offering.json must have a "name" field (string)''\<close>
| \<open>cli_message NameEmpty = ''"name" field cannot be empty''\<close>
| \<open>cli_message DescriptionRequired =
     ''offering.json must have a "description" field (string)''\<close>
| \<open>cli_message DescriptionEmpty = ''"description" field cannot be empty''\<close>
| \<open>cli_message JobFeeRequired = ''offering.json must have a "jobFee" field (number)''\<close>
| \<open>cli_message JobFeeNotNumber = ''"jobFee" must be a number''\<close>
| \<open>cli_message JobFeeNegative = ''"jobFee" must be a non-negative number''\<close>
| \<open>cli_message RequiredFundsRequired =
     ''offering.json must have a "requiredFunds" field (boolean) '' @
     [CHR 0xE2, CHR 0x80, CHR 0x94] @ '' explicitly set true or false''\<close>
| \<open>cli_message RequiredFundsNotBoolean = ''"requiredFunds" must be a boolean''\<close>


definition outcome :: "io list \<times> 'a \<times> 'c \<Rightarrow> 'a" where
  "outcome x = fst (snd x)"


text \<open>What a resolution yielded: whether it succeeded, and what it loaded.\<close>

definition resolved :: "js_exn + 'a \<Rightarrow> bool" where
  "resolved r = (case r of Inr _ \<Rightarrow> True | Inl _ \<Rightarrow> False)"

definition loaded_config :: "js_exn + jsval \<times> 'r Handlers \<Rightarrow> jsval" where
  "loaded_config r = (case r of Inr (config, handlers) \<Rightarrow> config | Inl _ \<Rightarrow> JUndefined)"

definition loaded_funds_handler :: "js_exn + jsval \<times> 'r Handlers \<Rightarrow> bool" where
  "loaded_funds_handler r =
     (case r of
        Inr (config, handlers) \<Rightarrow> requestAdditionalFunds handlers \<noteq> None
      | Inl _ \<Rightarrow> False)"

section \<open>Example jobs, offerings and storage\<close>

definition ex_job :: "AcpJobPhase \<Rightarrow> jsval \<Rightarrow> AcpMemoData list \<Rightarrow> AcpJobEventData" where
  "ex_job ph ctx ms =
     \<lparr>job_id = 7, phase = ph, clientAddress = ''0xC1'', price = 1, job_context = ctx,
      memos = ms\<rparr>"

definition ex_named :: jsval where
  "ex_named =
     JObj [(''jobOfferingName'', JStr ''donation''),
           (''serviceRequirements'', JObj [(''name'', JStr ''Ada'')])]"

definition ex_two_memos :: AcpJobEventData where
  \<open>ex_two_memos =
     ex_job REQUEST (JObj [(''jobOfferingName'', JStr ''donation'')])
       [\<lparr>nextPhase = TRANSACTION, content = ''paid''\<rparr>,
        \<lparr>nextPhase = NEGOTIATION, content = ''{"amount":1}''\<rparr>,
        \<lparr>nextPhase = NEGOTIATION, content = ''{"amount":2}''\<rparr>]\<close>

text \<open>
  \<^verbatim>\<open>JSON.parse\<close> on the two memo contents that are JSON below; on any other text this
  stand-in throws, as \<^verbatim>\<open>JSON.parse\<close> does on the third memo content, \<^verbatim>\<open>paid\<close>.
\<close>

definition ex_parse :: "string \<Rightarrow> js_exn + jsval" where
  \<open>ex_parse s =
     (if s = ''{"amount":1}'' then Inr (JObj [(''amount'', JNum 1)])
      else if s = ''{"amount":2}'' then Inr (JObj [(''amount'', JNum 2)])
      else Inl (ErrorObj ''SyntaxError'' ''Unexpected token''))\<close>

definition ex_execute_ok :: "jsval \<Rightarrow> js_exn + ExecuteJobResult" where
  "ex_execute_ok request = Inr \<lparr>deliverable = JStr ''Thank you Ada'', transfer = None\<rparr>"

definition ex_execute_throws :: "jsval \<Rightarrow> js_exn + ExecuteJobResult" where
  "ex_execute_throws request = Inl (ErrorObj ''Error'' ''upstream unavailable'')"

definition ex_validate_false :: "jsval \<Rightarrow> js_exn + bool" where
  "ex_validate_false request = Inr False"

definition ex_funds :: "jsval \<Rightarrow> js_exn + FundsRequest" where
  "ex_funds request = Inr \<lparr>amount = 5, ca = ''0xT0'', symbol = ''TKN''\<rparr>"

definition ex_config :: "bool \<Rightarrow> OfferingConfig" where
  "ex_config rf =
     \<lparr>name = ''donation'', description = ''Accepts donations'', jobFee = 1,
      requiredFunds = rf\<rparr>"

definition ex_handlers ::
  "(jsval \<Rightarrow> js_exn + ExecuteJobResult) \<Rightarrow> (jsval \<Rightarrow> js_exn + bool) option
     \<Rightarrow> (jsval \<Rightarrow> js_exn + FundsRequest) option \<Rightarrow> ExecuteJobResult Handlers" where
  "ex_handlers execute validate funds =
     \<lparr>executeJob = execute, validateRequirements = validate, requestAdditionalFunds = funds\<rparr>"

definition ex_load ::
  "OfferingConfig \<Rightarrow> ExecuteJobResult Handlers \<Rightarrow> jsval
     \<Rightarrow> js_exn + OfferingConfig \<times> ExecuteJobResult Handlers" where
  "ex_load config handlers offeringName =
     (if offeringName = JStr ''donation'' then Inr (config, handlers)
      else Inl (ErrorObj ''Error'' ''Offering directory not found''))"

definition ex_load_throws ::
  "jsval \<Rightarrow> js_exn + OfferingConfig \<times> ExecuteJobResult Handlers" where
  "ex_load_throws offeringName = Inl (ErrorObj ''Error'' ''Offering directory not found'')"

text \<open>
  A storage with one offering directory, \<^verbatim>\<open>svc\<close>, holding the given descriptor text and
  handlers source; \<^verbatim>\<open>JSON.parse\<close> is given on the descriptor texts used below.
\<close>

definition ex_descriptor_funds :: string where
  \<open>ex_descriptor_funds =
     ''{"name":"svc","description":"A service","jobFee":1,"requiredFunds":true}''\<close>

definition ex_descriptor_plain :: string where
  \<open>ex_descriptor_plain =
     ''{"name":"svc","description":"A service","jobFee":1,"requiredFunds":false}''\<close>

definition ex_descriptor_bad :: string where
  \<open>ex_descriptor_bad = ''{"name":" ","jobFee":-1,"requiredFunds":"yes"}''\<close>

definition ex_descriptor_null :: string where
  "ex_descriptor_null = ''null''"


definition ex_json_parse :: "string \<Rightarrow> js_exn + jsval" where
  "ex_json_parse s =
     (if s = ex_descriptor_funds
      then Inr (JObj [(''name'', JStr ''svc''), (''description'', JStr ''A service''),
                      (''jobFee'', JNum 1), (''requiredFunds'', JBool True)])
      else if s = ex_descriptor_plain
      then Inr (JObj [(''name'', JStr ''svc''), (''description'', JStr ''A service''),
                      (''jobFee'', JNum 1), (''requiredFunds'', JBool False)])
      else if s = ex_descriptor_bad
      then Inr (JObj [(''name'', JStr '' ''), (''jobFee'', JNum (- 1)),
                      (''requiredFunds'', JStr ''yes'')])
      else if s = ex_descriptor_null then Inr JNull
      else Inl (ErrorObj ''SyntaxError'' ''Unexpected end of JSON input''))"

definition ex_source_plain :: string where
  "ex_source_plain = ''export async function executeJob(request: any) { return 1; }''"

definition ex_source_funds :: string where
  "ex_source_funds =
     ''export async function executeJob(request: any) { return 1; } '' @
     ''export function requestAdditionalFunds(request: any) { return 2; }''"

definition ex_script_execute :: "jsval \<Rightarrow> js_exn + string" where
  "ex_script_execute request = Inr ''done''"

definition ex_module :: "(jsval \<Rightarrow> js_exn + FundsRequest) option \<Rightarrow> string ModuleExports" where
  "ex_module funds =
     \<lparr>export_executeJob = Some ex_script_execute, export_validateRequirements = None,
      export_requestAdditionalFunds = funds\<rparr>"

text \<open>
  \<^verbatim>\<open>path.resolve\<close> and \<^verbatim>\<open>path.join\<close> on the segments used below, which need no
  normalisation (the first is absolute, none is empty or dotted or ends with a
  separator): the segments with a separator between them.
\<close>

definition ex_segments :: "string list \<Rightarrow> string" where
  "ex_segments segs = foldr (\<lambda>a b. if b = [] then a else a @ ''/'' @ b) segs []"

definition ex_world :: "string \<Rightarrow> string \<Rightarrow> string ModuleExports \<Rightarrow> string world" where
  "ex_world descriptor source exports =
     \<lparr>cwd = ''/app'',
      path_resolve = ex_segments,
      path_join = ex_segments,
      existsSync = (\<lambda>p. p = ''/app/offerings/svc'' \<or> p = ''/app/offerings/svc/offering.json''
                        \<or> p = ''/app/offerings/svc/handlers.ts''),
      readFileSync = (\<lambda>p. if p = ''/app/offerings/svc/offering.json'' then Inr descriptor
                          else if p = ''/app/offerings/svc/handlers.ts'' then Inr source
                          else Inl (ErrorObj ''Error'' ''ENOENT: no such file or directory'')),
      JSON_parse = ex_json_parse,
      import_module = (\<lambda>p. if p = ''/app/offerings/svc/handlers.ts'' then Inr exports
                           else Inl (ErrorObj ''Error'' ''Cannot find module'')),
      failed_import_kept = (\<lambda>err. True)\<rparr>"


definition no_modules :: "string module_cache" where
  "no_modules = Map.empty"

section \<open>Properties of the processing pass\<close>

lemma request_trace:
  assumes "phase data = REQUEST" and "truthy (resolveOfferingName data)"
  shows "handleNewTask load parse data =
     Console (LogNewTask (job_id data) REQUEST (clientAddress data) (price data)
                (job_context data)) #
     (case request_try load (job_id data) (resolveOfferingName data)
             (resolveServiceRequirements parse data) of
        (evs, None) \<Rightarrow> evs
      | (evs, Some err) \<Rightarrow>
          evs @ [Console (LogErrorProcessing (job_id data) err),
                 AcceptOrRejectJob (job_id data) False
                   (''Handler error: '' @ error_message err)])"
  using assms by (simp add: handleNewTask_def Let_def split: prod.splits option.splits)

lemma ex_named_name: "resolveOfferingName (ex_job ph ex_named ms) = JStr ''donation''"
  by (simp add: ex_job_def ex_named_def resolveOfferingName_def opt_prop_def)

lemma ex_named_requirements:
  "resolveServiceRequirements parse (ex_job ph ex_named ms) = JObj [(''name'', JStr ''Ada'')]"
  by (simp add: ex_job_def ex_named_def resolveServiceRequirements_def opt_prop_def)

lemma ex_job_simps:
  "phase (ex_job ph ctx ms) = ph" "job_id (ex_job ph ctx ms) = 7"
  by (simp_all add: ex_job_def)

lemma ex_load_donation: "ex_load config handlers (JStr ''donation'') = Inr (config, handlers)"
  by (simp add: ex_load_def)

text \<open>
  C6 (permissive fallback).  A job at phase REQUEST from which no offering name can be
  extracted is answered with exactly one action: an accept with the generic reason
  "Accepted (no offering matched)".  No reject, payment request or delivery is emitted.
\<close>

theorem permissive_fallback:
  assumes "phase data = REQUEST"
    and "\<not> truthy (resolveOfferingName data)"
  shows "actions (handleNewTask load parse data) =
           [AcceptOrRejectJob (job_id data) True ''Accepted (no offering matched)'']"
  using assms by (simp add: handleNewTask_def Let_def actions_def)

theorem permissive_fallback_witness:
  "phase (ex_job REQUEST (JObj []) []) = REQUEST
   \<and> \<not> truthy (resolveOfferingName (ex_job REQUEST (JObj []) []))
   \<and> actions (handleNewTask ex_load_throws ex_parse (ex_job REQUEST (JObj []) [])) =
       [AcceptOrRejectJob 7 True ''Accepted (no offering matched)'']"
proof -
  have h1: "phase (ex_job REQUEST (JObj []) []) = REQUEST"
    by (simp add: ex_job_def)
  have h2: "\<not> truthy (resolveOfferingName (ex_job REQUEST (JObj []) []))"
    by (simp add: ex_job_def resolveOfferingName_def opt_prop_def)
  show ?thesis
    using h1 h2
      permissive_fallback [where data = "ex_job REQUEST (JObj []) []" and load = ex_load_throws
        and parse = ex_parse]
    by (simp add: ex_job_simps)
qed

text \<open>
  C3 (validation short-circuit).  When the handlers of the resolved offering expose
  \<^verbatim>\<open>validateRequirements\<close> and it returns false on the extracted requirements, a job at phase
  REQUEST is answered with exactly one action, the reject with reason "Validation
  failed": no accept, payment request or delivery is emitted.
\<close>

theorem validation_short_circuit:
  assumes "phase data = REQUEST"
    and "truthy (resolveOfferingName data)"
    and "load (resolveOfferingName data) = Inr (config, handlers)"
    and "validateRequirements handlers = Some validate"
    and "validate (resolveServiceRequirements parse data) = Inr False"
  shows "actions (handleNewTask load parse data) =
           [AcceptOrRejectJob (job_id data) False ''Validation failed'']"
  using assms by (simp add: request_trace request_try_def actions_def)

theorem validation_short_circuit_witness:
  "actions (handleNewTask
              (ex_load (ex_config False) (ex_handlers ex_execute_ok (Some ex_validate_false) None))
              ex_parse (ex_job REQUEST ex_named [])) =
     [AcceptOrRejectJob 7 False ''Validation failed'']"
proof -
  let ?h = "ex_handlers ex_execute_ok (Some ex_validate_false) None"
  let ?d = "ex_job REQUEST ex_named []"
  have h1: "phase ?d = REQUEST" by (simp add: ex_job_simps)
  have h2: "truthy (resolveOfferingName ?d)" by (simp add: ex_named_name)
  have h3: "ex_load (ex_config False) ?h (resolveOfferingName ?d) = Inr (ex_config False, ?h)"
    by (simp add: ex_named_name ex_load_donation)
  have h4: "validateRequirements ?h = Some ex_validate_false"
    by (simp add: ex_handlers_def)
  have h5: "ex_validate_false (resolveServiceRequirements ex_parse ?d) = Inr False"
    by (simp add: ex_validate_false_def)
  show ?thesis
    using h1 h2 h3 h4 h5
      validation_short_circuit [where data = ?d and load = "ex_load (ex_config False) ?h"
        and config = "ex_config False" and handlers = ?h and validate = ex_validate_false
        and parse = ex_parse]
    by (simp add: ex_job_simps)
qed

text \<open>
  C2 (funding gate and ordering), as amended.  A job at phase REQUEST that completes
  (the offering loads, validation lets it through, \<^verbatim>\<open>executeJob\<close> returns) emits, when the
  offering has \<^verbatim>\<open>requiredFunds\<close> true and its handlers have \<^verbatim>\<open>requestAdditionalFunds\<close>, exactly
  the actions accept, payment request, deliver, in this order, the payment request in mode
  "request" with the amount and contract address that \<^verbatim>\<open>requestAdditionalFunds\<close> returned;
  when \<^verbatim>\<open>requiredFunds\<close> is false, or the handler is absent, it emits accept and deliver and
  no payment request.
\<close>

theorem funding_gate:
  assumes "phase data = REQUEST"
    and "truthy (resolveOfferingName data)"
    and "load (resolveOfferingName data) = Inr (config, handlers)"
    and "validation_passes handlers (resolveServiceRequirements parse data)"
    and "executeJob handlers (resolveServiceRequirements parse data) = Inr result"
  shows "(requiredFunds config \<and> requestAdditionalFunds handlers = Some f \<and>
            f (resolveServiceRequirements parse data) = Inr funds \<longrightarrow>
          actions (handleNewTask load parse data) =
            [AcceptOrRejectJob (job_id data) True ''Job accepted'',
             RequestPayment (job_id data) (amount funds) (ca funds) ModeRequest,
             DeliverJob (job_id data) (deliverable result) (transfer result)])
       \<and> (\<not> requiredFunds config \<or> requestAdditionalFunds handlers = None \<longrightarrow>
          actions (handleNewTask load parse data) =
            [AcceptOrRejectJob (job_id data) True ''Job accepted'',
             DeliverJob (job_id data) (deliverable result) (transfer result)])"
  using assms
  by (auto simp add: request_trace request_try_def accept_and_run_def actions_def
        validation_passes_def split: option.splits)

theorem funding_gate_witness:
  "actions (handleNewTask
              (ex_load (ex_config True) (ex_handlers ex_execute_ok None (Some ex_funds)))
              ex_parse (ex_job REQUEST ex_named [])) =
     [AcceptOrRejectJob 7 True ''Job accepted'',
      RequestPayment 7 5 ''0xT0'' ModeRequest,
      DeliverJob 7 (JStr ''Thank you Ada'') None]
   \<and> actions (handleNewTask
              (ex_load (ex_config False) (ex_handlers ex_execute_ok None None))
              ex_parse (ex_job REQUEST ex_named [])) =
     [AcceptOrRejectJob 7 True ''Job accepted'',
      DeliverJob 7 (JStr ''Thank you Ada'') None]"
proof -
  let ?d = "ex_job REQUEST ex_named []"
  let ?r = "\<lparr>deliverable = JStr ''Thank you Ada'', transfer = None\<rparr>"
  let ?fr = "\<lparr>amount = 5, ca = ''0xT0'', symbol = ''TKN''\<rparr>"
  have h1: "phase ?d = REQUEST" by (simp add: ex_job_simps)
  have h2: "truthy (resolveOfferingName ?d)" by (simp add: ex_named_name)
  let ?h = "ex_handlers ex_execute_ok None (Some ex_funds)"
  let ?g = "ex_handlers ex_execute_ok None None"
  have a3: "ex_load (ex_config True) ?h (resolveOfferingName ?d) = Inr (ex_config True, ?h)"
    by (simp add: ex_named_name ex_load_donation)
  have a4: "validation_passes ?h (resolveServiceRequirements ex_parse ?d)"
    by (simp add: validation_passes_def ex_handlers_def)
  have a5: "executeJob ?h (resolveServiceRequirements ex_parse ?d) = Inr ?r"
    by (simp add: ex_handlers_def ex_execute_ok_def)
  have a6: "requiredFunds (ex_config True) \<and> requestAdditionalFunds ?h = Some ex_funds \<and>
            ex_funds (resolveServiceRequirements ex_parse ?d) = Inr ?fr"
    by (simp add: ex_config_def ex_handlers_def ex_funds_def)
  have b3: "ex_load (ex_config False) ?g (resolveOfferingName ?d) = Inr (ex_config False, ?g)"
    by (simp add: ex_named_name ex_load_donation)
  have b4: "validation_passes ?g (resolveServiceRequirements ex_parse ?d)"
    by (simp add: validation_passes_def ex_handlers_def)
  have b5: "executeJob ?g (resolveServiceRequirements ex_parse ?d) = Inr ?r"
    by (simp add: ex_handlers_def ex_execute_ok_def)
  have b6: "\<not> requiredFunds (ex_config False)"
    by (simp add: ex_config_def)
  show ?thesis
    using a6 b6
      funding_gate [where data = ?d and load = "ex_load (ex_config True) ?h"
        and config = "ex_config True" and handlers = ?h and parse = ex_parse
        and result = ?r and f = ex_funds and funds = ?fr, OF h1 h2 a3 a4 a5]
      funding_gate [where data = ?d and load = "ex_load (ex_config False) ?g"
        and config = "ex_config False" and handlers = ?g and parse = ex_parse
        and result = ?r, OF h1 h2 b3 b4 b5]
  by (simp add: ex_job_simps)
qed

text \<open>
  Without the handler the gate stays open: an offering with \<^verbatim>\<open>requiredFunds\<close> true and no
  \<^verbatim>\<open>requestAdditionalFunds\<close> is accepted, executed and delivered with no payment request.
\<close>

theorem funding_gate_counterexample:
  "requiredFunds (ex_config True)
   \<and> actions (handleNewTask
              (ex_load (ex_config True) (ex_handlers ex_execute_ok None None))
              ex_parse (ex_job REQUEST ex_named [])) =
     [AcceptOrRejectJob 7 True ''Job accepted'',
      DeliverJob 7 (JStr ''Thank you Ada'') None]"
  by (simp add: request_trace ex_job_simps ex_named_name ex_named_requirements
        ex_load_donation request_try_def accept_and_run_def actions_def ex_handlers_def
        ex_config_def ex_execute_ok_def)



text \<open>
  C10 (accept before reject).  When a job at phase REQUEST has a resolvable offering,
  passes validation, and \<^verbatim>\<open>executeJob\<close> throws, the pass emits the accept action first and
  the reject action last: its actions are the accept, the payment request if one was
  made, and the reject.  The accept is not withdrawn.
\<close>

theorem accept_then_reject:
  assumes "phase data = REQUEST"
    and "truthy (resolveOfferingName data)"
    and "load (resolveOfferingName data) = Inr (config, handlers)"
    and "validation_passes handlers (resolveServiceRequirements parse data)"
    and "funds_step_returns config handlers (resolveServiceRequirements parse data)"
    and "executeJob handlers (resolveServiceRequirements parse data) = Inl err"
  shows "actions (handleNewTask load parse data) =
           AcceptOrRejectJob (job_id data) True ''Job accepted'' #
           filter is_payment (handleNewTask load parse data) @
           [AcceptOrRejectJob (job_id data) False (''Handler error: '' @ error_message err)]"
  using assms
  by (auto simp add: request_trace request_try_def accept_and_run_def actions_def
        validation_passes_def funds_step_returns_def split: option.splits sum.splits)

theorem accept_then_reject_witness:
  "actions
     (handleNewTask (ex_load (ex_config True) (ex_handlers ex_execute_throws None (Some ex_funds)))
        ex_parse (ex_job REQUEST ex_named [])) =
     [AcceptOrRejectJob 7 True ''Job accepted'',
      RequestPayment 7 5 ''0xT0'' ModeRequest,
      AcceptOrRejectJob 7 False ''Handler error: upstream unavailable'']"
proof -
  let ?d = "ex_job REQUEST ex_named []"
  let ?h = "ex_handlers ex_execute_throws None (Some ex_funds)"
  let ?l = "ex_load (ex_config True) ?h"
  have h1: "phase ?d = REQUEST" by (simp add: ex_job_simps)
  have h2: "truthy (resolveOfferingName ?d)" by (simp add: ex_named_name)
  have h3: "?l (resolveOfferingName ?d) = Inr (ex_config True, ?h)"
    by (simp add: ex_named_name ex_load_donation)
  have h4: "validation_passes ?h (resolveServiceRequirements ex_parse ?d)"
    by (simp add: validation_passes_def ex_handlers_def)
  have h5: "funds_step_returns (ex_config True) ?h (resolveServiceRequirements ex_parse ?d)"
    by (simp add: funds_step_returns_def ex_config_def ex_handlers_def ex_funds_def)
  have h6: "executeJob ?h (resolveServiceRequirements ex_parse ?d) =
              Inl (ErrorObj ''Error'' ''upstream unavailable'')"
    by (simp add: ex_handlers_def ex_execute_throws_def)
  have p: "filter is_payment (handleNewTask ?l ex_parse ?d) =
             [RequestPayment 7 5 ''0xT0'' ModeRequest]"
    by (simp add: request_trace ex_job_simps ex_named_name ex_named_requirements
          ex_load_donation request_try_def accept_and_run_def ex_handlers_def ex_config_def
          ex_execute_throws_def ex_funds_def)
  show ?thesis
    using accept_then_reject [where data = ?d and load = ?l and config = "ex_config True"
        and handlers = ?h and parse = ex_parse
        and err = "ErrorObj ''Error'' ''upstream unavailable''", OF h1 h2 h3 h4 h5 h6]
    by (simp add: ex_job_simps p)
qed

text \<open>
  C5 (execution failure isolation, TRANSACTION phase).  For a job at phase TRANSACTION:
  when no offering name can be extracted, no action is taken; when the offering fails to
  load, or \<^verbatim>\<open>executeJob\<close> throws, the failure is logged and no action is emitted (no reject,
  no deliver).
\<close>

theorem transaction_failure_isolation:
  assumes "phase data = TRANSACTION"
  shows "(\<not> truthy (resolveOfferingName data) \<longrightarrow>
            actions (handleNewTask load parse data) = [])
       \<and> (truthy (resolveOfferingName data) \<and> load (resolveOfferingName data) = Inl err \<longrightarrow>
            actions (handleNewTask load parse data) = [] \<and>
            Console (LogErrorDelivering (job_id data) err) \<in> set (handleNewTask load parse data))
       \<and> (truthy (resolveOfferingName data) \<and>
          load (resolveOfferingName data) = Inr (config, handlers) \<and>
          executeJob handlers (resolveServiceRequirements parse data) = Inl err \<longrightarrow>
            actions (handleNewTask load parse data) = [] \<and>
            Console (LogErrorDelivering (job_id data) err) \<in> set (handleNewTask load parse data))"
  using assms
  by (auto simp add: handleNewTask_def Let_def transaction_try_def actions_def)

theorem transaction_failure_isolation_witness:
  "actions (handleNewTask ex_load_throws ex_parse (ex_job TRANSACTION (JObj []) [])) = []
   \<and> actions (handleNewTask ex_load_throws ex_parse (ex_job TRANSACTION ex_named [])) = []
   \<and> Console (LogErrorDelivering 7 (ErrorObj ''Error'' ''Offering directory not found''))
       \<in> set (handleNewTask ex_load_throws ex_parse (ex_job TRANSACTION ex_named []))
   \<and> actions
       (handleNewTask (ex_load (ex_config False) (ex_handlers ex_execute_throws None None))
          ex_parse (ex_job TRANSACTION ex_named [])) = []
   \<and> Console (LogErrorDelivering 7 (ErrorObj ''Error'' ''upstream unavailable''))
       \<in> set (handleNewTask (ex_load (ex_config False) (ex_handlers ex_execute_throws None None))
                ex_parse (ex_job TRANSACTION ex_named []))"
proof -
  let ?e = "ex_job TRANSACTION (JObj []) []"
  let ?d = "ex_job TRANSACTION ex_named []"
  let ?h = "ex_handlers ex_execute_throws None None"
  have h1: "phase ?e = TRANSACTION" and h1': "phase ?d = TRANSACTION"
    by (simp_all add: ex_job_simps)
  have n: "\<not> truthy (resolveOfferingName ?e)"
    by (simp add: ex_job_def resolveOfferingName_def opt_prop_def)
  have t: "truthy (resolveOfferingName ?d)" by (simp add: ex_named_name)
  have l: "ex_load_throws (resolveOfferingName ?d) =
             Inl (ErrorObj ''Error'' ''Offering directory not found'')"
    by (simp add: ex_load_throws_def)
  have x: "ex_load (ex_config False) ?h (resolveOfferingName ?d) = Inr (ex_config False, ?h)
           \<and> executeJob ?h (resolveServiceRequirements ex_parse ?d) =
               Inl (ErrorObj ''Error'' ''upstream unavailable'')"
    by (simp add: ex_named_name ex_load_donation ex_handlers_def ex_execute_throws_def)
  show ?thesis
    using n t l x
      transaction_failure_isolation [where data = ?e and load = ex_load_throws
        and parse = ex_parse, OF h1]
      transaction_failure_isolation [where data = ?d and load = ex_load_throws
        and parse = ex_parse
        and err = "ErrorObj ''Error'' ''Offering directory not found''", OF h1']
      transaction_failure_isolation [where data = ?d
        and load = "ex_load (ex_config False) ?h" and parse = ex_parse
        and config = "ex_config False" and handlers = ?h
        and err = "ErrorObj ''Error'' ''upstream unavailable''", OF h1']
    by (simp add: ex_job_simps)
qed

section \<open>Properties of the extraction\<close>

text \<open>
  C7 (extraction order), as amended.  The requirements are \<^verbatim>\<open>context.serviceRequirements\<close>
  when that is truthy.  Failing that they come from the first memo of the sequence whose
  next phase is NEGOTIATION, when its content is not empty: the parsed content, or the
  content wrapped under \<^verbatim>\<open>raw\<close> when it does not parse.  Otherwise they are the empty
  object.  The offering name is \<^verbatim>\<open>context.jobOfferingName\<close>, or failing that
  \<^verbatim>\<open>context.offeringName\<close>.
\<close>

theorem requirements_extraction_order:
  "(truthy (opt_prop (job_context data) ''serviceRequirements'') \<longrightarrow>
      resolveServiceRequirements parse data = get_prop (job_context data) ''serviceRequirements'')
   \<and> (\<not> truthy (opt_prop (job_context data) ''serviceRequirements'') \<and>
      i < length (memos data) \<and> nextPhase (memos data ! i) = NEGOTIATION \<and>
      (\<forall>j<i. nextPhase (memos data ! j) \<noteq> NEGOTIATION) \<longrightarrow>
      resolveServiceRequirements parse data =
        (if content (memos data ! i) = [] then JObj []
         else case parse (content (memos data ! i)) of
                Inr v \<Rightarrow> v
              | Inl _ \<Rightarrow> JObj [(''raw'', JStr (content (memos data ! i)))]))
   \<and> (\<not> truthy (opt_prop (job_context data) ''serviceRequirements'') \<and>
      (\<forall>m \<in> set (memos data). nextPhase m \<noteq> NEGOTIATION) \<longrightarrow>
      resolveServiceRequirements parse data = JObj [])
   \<and> (\<not> nullish (opt_prop (job_context data) ''jobOfferingName'') \<longrightarrow>
      resolveOfferingName data = opt_prop (job_context data) ''jobOfferingName'')
   \<and> (nullish (opt_prop (job_context data) ''jobOfferingName'') \<and>
      \<not> nullish (opt_prop (job_context data) ''offeringName'') \<longrightarrow>
      resolveOfferingName data = opt_prop (job_context data) ''offeringName'')"
proof -
  have first: "find (\<lambda>m. nextPhase m = NEGOTIATION) (memos data) = Some (memos data ! i)"
    if "i < length (memos data)" "nextPhase (memos data ! i) = NEGOTIATION"
       "\<forall>j<i. nextPhase (memos data ! j) \<noteq> NEGOTIATION"
    using that by (auto simp add: find_Some_iff)
  have none: "find (\<lambda>m. nextPhase m = NEGOTIATION) (memos data) = None"
    if "\<forall>m \<in> set (memos data). nextPhase m \<noteq> NEGOTIATION"
    using that by (simp add: find_None_iff)
  show ?thesis
    by (auto simp add: resolveServiceRequirements_def resolveOfferingName_def Let_def
          opt_prop_def first none split: sum.splits)
qed

theorem requirements_extraction_order_witness:
  "resolveServiceRequirements ex_parse ex_two_memos = JObj [(''amount'', JNum 1)]
   \<and> resolveOfferingName ex_two_memos = JStr ''donation''
   \<and> resolveServiceRequirements ex_parse (ex_job REQUEST ex_named []) =
       JObj [(''name'', JStr ''Ada'')]
   \<and> resolveServiceRequirements ex_parse
         (ex_job REQUEST (JObj [(''offeringName'', JStr ''donation'')]) []) = JObj []
   \<and> resolveOfferingName (ex_job REQUEST (JObj [(''offeringName'', JStr ''donation'')]) []) =
       JStr ''donation''"
proof -
  let ?n = "ex_job REQUEST ex_named []"
  let ?o = "ex_job REQUEST (JObj [(''offeringName'', JStr ''donation'')]) []"
  have c: "job_context ex_two_memos = JObj [(''jobOfferingName'', JStr ''donation'')]"
    and m: \<open>memos ex_two_memos =
       [\<lparr>nextPhase = TRANSACTION, content = ''paid''\<rparr>,
        \<lparr>nextPhase = NEGOTIATION, content = ''{"amount":1}''\<rparr>,
        \<lparr>nextPhase = NEGOTIATION, content = ''{"amount":2}''\<rparr>]\<close>
    by (simp_all add: ex_two_memos_def ex_job_def)
  have h1: "\<not> truthy (opt_prop (job_context ex_two_memos) ''serviceRequirements'')"
    by (simp add: c opt_prop_def)
  have h2: "(1::nat) < length (memos ex_two_memos)
            \<and> nextPhase (memos ex_two_memos ! 1) = NEGOTIATION
            \<and> (\<forall>j<1. nextPhase (memos ex_two_memos ! j) \<noteq> NEGOTIATION)"
    by (simp add: m)
  have h3: "\<not> nullish (opt_prop (job_context ex_two_memos) ''jobOfferingName'')"
    by (simp add: c opt_prop_def)
  have n1: "truthy (opt_prop (job_context ?n) ''serviceRequirements'')"
    by (simp add: ex_job_def ex_named_def opt_prop_def)
  have o1: "\<not> truthy (opt_prop (job_context ?o) ''serviceRequirements'')
            \<and> (\<forall>m \<in> set (memos ?o). nextPhase m \<noteq> NEGOTIATION)"
    by (simp add: ex_job_def opt_prop_def)
  have o2: "nullish (opt_prop (job_context ?o) ''jobOfferingName'')
            \<and> \<not> nullish (opt_prop (job_context ?o) ''offeringName'')"
    by (simp add: ex_job_def opt_prop_def)
  show ?thesis
    using h1 h2 h3 n1 o1 o2
      requirements_extraction_order [where data = ex_two_memos and parse = ex_parse and i = 1]
      requirements_extraction_order [where data = ?n and parse = ex_parse and i = 0]
      requirements_extraction_order [where data = ?o and parse = ex_parse and i = 0]
    by (simp add: m c opt_prop_def ex_parse_def ex_job_def ex_named_def)
qed

text \<open>
  With two memos whose next phase is NEGOTIATION, the requirements come from the first;
  the most recent one, which the specification names, carries another payload.
\<close>

theorem requirements_extraction_order_counterexample:
  "resolveServiceRequirements ex_parse ex_two_memos = JObj [(''amount'', JNum 1)]
   \<and> spec_resolveServiceRequirements ex_parse ex_two_memos = JObj [(''amount'', JNum 2)]"
  by (simp add: resolveServiceRequirements_def spec_resolveServiceRequirements_def
        ex_two_memos_def ex_job_def opt_prop_def ex_parse_def)

section \<open>Properties of the descriptor validation\<close>

lemma push_error_simps:
  "errors (push_error msg r) = errors r @ [msg]"
  "valid (push_error msg r) = False"
  "warnings (push_error msg r) = warnings r"
  by (simp_all add: push_error_def)

lemma check_name_report:
  "errors (check_name json r) = errors r @ map sell_message (name_violations json)"
  "valid (check_name json r) = (valid r \<and> name_violations json = [])"
  "warnings (check_name json r) = warnings r"
  by (cases "get_prop json ''name''";
      simp add: check_name_def name_violations_def push_error_simps)+

lemma check_description_report:
  "errors (check_description json r) = errors r @ map sell_message (description_violations json)"
  "valid (check_description json r) = (valid r \<and> description_violations json = [])"
  "warnings (check_description json r) = warnings r"
  by (cases "get_prop json ''description''";
      simp add: check_description_def description_violations_def push_error_simps)+

lemma check_jobFee_report:
  "errors (check_jobFee json r) = errors r @ map sell_message (jobFee_violations json)"
  "valid (check_jobFee json r) = (valid r \<and> jobFee_violations json = [])"
  "warnings (check_jobFee json r) = warnings r"
  by (cases "get_prop json ''jobFee''";
      simp add: check_jobFee_def jobFee_violations_def push_error_simps)+

lemma check_requiredFunds_report:
  "errors (check_requiredFunds json r) =
     errors r @ map sell_message (requiredFunds_violations json)"
  "valid (check_requiredFunds json r) = (valid r \<and> requiredFunds_violations json = [])"
  "warnings (check_requiredFunds json r) = warnings r"
  by (cases "get_prop json ''requiredFunds''";
      simp add: check_requiredFunds_def requiredFunds_violations_def push_error_simps)+

lemma cli_check_name_report:
  "errors (cli_check_name json r) = errors r @ map cli_message (name_violations json)"
  "valid (cli_check_name json r) = (valid r \<and> name_violations json = [])"
  by (cases "get_prop json ''name''";
      simp add: cli_check_name_def name_violations_def push_error_simps)+

lemma cli_check_description_report:
  "errors (cli_check_description json r) =
     errors r @ map cli_message (description_violations json)"
  "valid (cli_check_description json r) = (valid r \<and> description_violations json = [])"
  by (cases "get_prop json ''description''";
      simp add: cli_check_description_def description_violations_def push_error_simps)+

lemma cli_check_jobFee_report:
  "errors (cli_check_jobFee json r) = errors r @ map cli_message (jobFee_violations json)"
  "valid (cli_check_jobFee json r) = (valid r \<and> jobFee_violations json = [])"
  by (cases "get_prop json ''jobFee''";
      simp add: cli_check_jobFee_def jobFee_violations_def push_error_simps)+

lemma cli_check_requiredFunds_report:
  "errors (cli_check_requiredFunds json r) =
     errors r @ map cli_message (requiredFunds_violations json)"
  "valid (cli_check_requiredFunds json r) = (valid r \<and> requiredFunds_violations json = [])"
  by (cases "get_prop json ''requiredFunds''";
      simp add: cli_check_requiredFunds_def requiredFunds_violations_def push_error_simps)+

lemma validateOfferingJson_parsed:
  assumes "existsSync w filePath" and "readFileSync w filePath = Inr source"
    and "JSON_parse w source = Inr json" and "\<not> nullish json"
  shows "\<exists>r. validateOfferingJson w filePath = Inr r
           \<and> errors r = map sell_message (violated_rules json)
           \<and> valid r = (violated_rules json = [])
           \<and> warnings r = []"
  using assms
  by (simp add: validateOfferingJson_def check_name_report check_description_report
        check_jobFee_report check_requiredFunds_report violated_rules_def)

lemma validateOfferingJson_cli_parsed:
  assumes "existsSync w filePath" and "readFileSync w filePath = Inr source"
    and "JSON_parse w source = Inr json" and "\<not> nullish json"
  shows "\<exists>r. validateOfferingJson_cli w filePath = Inr r
           \<and> errors r = map cli_message (violated_rules json)
           \<and> valid r = (violated_rules json = [])"
  using assms
  by (simp add: validateOfferingJson_cli_def cli_check_name_report
        cli_check_description_report cli_check_jobFee_report cli_check_requiredFunds_report
        violated_rules_def)

text \<open>
  Complete reporting.  When the descriptor file parses to anything but \<^verbatim>\<open>null\<close>, both
  versions of \<^verbatim>\<open>validateOfferingJson\<close> return a report whose errors are the messages of all
  the field-level rules the descriptor violates, one per violated rule in the order
  name, description, jobFee, requiredFunds; the report is valid exactly when no rule is
  violated.
\<close>

theorem descriptor_violations_all_reported:
  assumes "existsSync w filePath"
    and "readFileSync w filePath = Inr source"
    and "JSON_parse w source = Inr json"
    and "\<not> nullish json"
  shows "(\<exists>r. validateOfferingJson w filePath = Inr r
            \<and> errors r = map sell_message (violated_rules json)
            \<and> valid r = (violated_rules json = []))
       \<and> (\<exists>r. validateOfferingJson_cli w filePath = Inr r
            \<and> errors r = map cli_message (violated_rules json)
            \<and> valid r = (violated_rules json = []))"
  using validateOfferingJson_parsed [OF assms] validateOfferingJson_cli_parsed [OF assms]
  by blast

lemma ex_world_simps:
  "cwd (ex_world d s m) = ''/app''"
  "existsSync (ex_world d s m) ''/app/offerings/svc''"
  "existsSync (ex_world d s m) ''/app/offerings/svc/offering.json''"
  "existsSync (ex_world d s m) ''/app/offerings/svc/handlers.ts''"
  "readFileSync (ex_world d s m) ''/app/offerings/svc/offering.json'' = Inr d"
  "readFileSync (ex_world d s m) ''/app/offerings/svc/handlers.ts'' = Inr s"
  "JSON_parse (ex_world d s m) = ex_json_parse"
  "import_module (ex_world d s m) ''/app/offerings/svc/handlers.ts'' = Inr m"
  "path_join (ex_world d s m) [''/app/offerings/svc'', ''offering.json''] =
     ''/app/offerings/svc/offering.json''"
  "path_join (ex_world d s m) [''/app/offerings/svc'', ''handlers.ts''] =
     ''/app/offerings/svc/handlers.ts''"
  "offeringsDir (ex_world d s m) ''svc'' = ''/app/offerings/svc''"
  "configPath (ex_world d s m) ''svc'' = ''/app/offerings/svc/offering.json''"
  "handlersPath (ex_world d s m) ''svc'' = ''/app/offerings/svc/handlers.ts''"
  by (simp_all add: ex_world_def ex_segments_def offeringsDir_def configPath_def
        handlersPath_def)

lemma ex_json_parse_bad:
  "ex_json_parse ex_descriptor_bad =
     Inr (JObj [(''name'', JStr '' ''), (''jobFee'', JNum (- 1)),
                (''requiredFunds'', JStr ''yes'')])"
  by (simp add: ex_json_parse_def ex_descriptor_bad_def ex_descriptor_funds_def
        ex_descriptor_plain_def)

lemma ex_trims:
  "js_trim '' '' = []" "js_trim ''svc'' \<noteq> []" "js_trim ''A service'' \<noteq> []"
  by code_simp+

lemma ex_bad_violated:
  "violated_rules (JObj [(''name'', JStr '' ''), (''jobFee'', JNum (- 1)),
                         (''requiredFunds'', JStr ''yes'')]) =
     [NameEmpty, DescriptionRequired, JobFeeNegative, RequiredFundsNotBoolean]"
  by (simp add: violated_rules_def name_violations_def description_violations_def
        jobFee_violations_def requiredFunds_violations_def ex_trims)

theorem descriptor_violations_all_reported_witness:
  \<open>(\<exists>r. validateOfferingJson (ex_world ex_descriptor_bad ex_source_plain (ex_module None))
           ''/app/offerings/svc/offering.json'' = Inr r
        \<and> errors r =
            [''"name" field is required (non-empty string)'',
             ''"description" field is required (non-empty string)'',
             ''"jobFee" must be a non-negative number'',
             ''"requiredFunds" must be a boolean'']
        \<and> \<not> valid r)
   \<and> (\<exists>r. validateOfferingJson_cli (ex_world ex_descriptor_bad ex_source_plain (ex_module None))
           ''/app/offerings/svc/offering.json'' = Inr r
        \<and> errors r =
            [''"name" field cannot be empty'',
             ''offering.json must have a "description" field (string)'',
             ''"jobFee" must be a non-negative number'',
             ''"requiredFunds" must be a boolean'']
        \<and> \<not> valid r)\<close>
proof -
  let ?w = "ex_world ex_descriptor_bad ex_source_plain (ex_module None)"
  let ?j = "JObj [(''name'', JStr '' ''), (''jobFee'', JNum (- 1)),
                  (''requiredFunds'', JStr ''yes'')]"
  have h1: "existsSync ?w ''/app/offerings/svc/offering.json''"
    by (simp add: ex_world_simps)
  have h2: "readFileSync ?w ''/app/offerings/svc/offering.json'' = Inr ex_descriptor_bad"
    by (simp add: ex_world_simps)
  have h3: "JSON_parse ?w ex_descriptor_bad = Inr ?j"
    by (simp add: ex_world_simps ex_json_parse_bad)
  have h4: "\<not> nullish ?j" by simp
  show ?thesis
    using descriptor_violations_all_reported [OF h1 h2 h3 h4]
    by (simp add: ex_bad_violated)
qed

text \<open>
  The one parsed content left out above: on \<^verbatim>\<open>null\<close> the first field read throws, in
  both versions, and no report is returned.
\<close>

lemma validateOfferingJson_null:
  assumes "existsSync w filePath" and "readFileSync w filePath = Inr source"
    and "JSON_parse w source = Inr JNull"
  shows "validateOfferingJson w filePath = Inl (property_read_error JNull ''name'')"
    and "validateOfferingJson_cli w filePath = Inl (property_read_error JNull ''name'')"
  using assms by (simp_all add: validateOfferingJson_def validateOfferingJson_cli_def)

lemma ex_json_parse_null: "ex_json_parse ex_descriptor_null = Inr JNull"
  by (simp add: ex_json_parse_def ex_descriptor_plain_def ex_descriptor_funds_def
        ex_descriptor_bad_def ex_descriptor_null_def)

text \<open>
  C8 (complete violation reporting) fails on one descriptor.  When \<^verbatim>\<open>offering.json\<close> holds
  the text \<^verbatim>\<open>null\<close>, the four fields are all missing, so four rules are violated; yet
  neither version of \<^verbatim>\<open>validateOfferingJson\<close> returns a report: the read of the first field
  throws a \<^verbatim>\<open>TypeError\<close> that nothing catches, and \<^verbatim>\<open>create\<close> ends on it without listing
  any violated rule.
\<close>

theorem descriptor_null_unreported:
  "violated_rules JNull =
     [NameRequired, DescriptionRequired, JobFeeRequired, RequiredFundsRequired]
   \<and> validateOfferingJson (ex_world ex_descriptor_null ex_source_plain (ex_module None))
       ''/app/offerings/svc/offering.json'' =
     Inl (property_read_error JNull ''name'')
   \<and> validateOfferingJson_cli (ex_world ex_descriptor_null ex_source_plain (ex_module None))
       ''/app/offerings/svc/offering.json'' =
     Inl (property_read_error JNull ''name'')
   \<and> create_validate (ex_world ex_descriptor_null ex_source_plain (ex_module None))
       ''/app/offerings/svc'' =
     Inl (property_read_error JNull ''name'')"
proof -
  let ?w = "ex_world ex_descriptor_null ex_source_plain (ex_module None)"
  have v: "validateOfferingJson ?w ''/app/offerings/svc/offering.json'' =
             Inl (property_read_error JNull ''name'')"
    and c: "validateOfferingJson_cli ?w ''/app/offerings/svc/offering.json'' =
             Inl (property_read_error JNull ''name'')"
    by (rule validateOfferingJson_null [where source = ex_descriptor_null];
        simp add: ex_world_simps ex_json_parse_null)+
  have r: "violated_rules JNull =
             [NameRequired, DescriptionRequired, JobFeeRequired, RequiredFundsRequired]"
    by (simp add: violated_rules_def name_violations_def description_violations_def
          jobFee_violations_def requiredFunds_violations_def)
  from v have "create_validate ?w ''/app/offerings/svc'' =
                 Inl (property_read_error JNull ''name'')"
    by (simp add: create_validate_def Let_def ex_world_simps)
  with v c r show ?thesis by simp
qed

section \<open>Properties of the resolution\<close>

lemma ex_json_parse_funds:
  "ex_json_parse ex_descriptor_funds =
     Inr (JObj [(''name'', JStr ''svc''), (''description'', JStr ''A service''),
                (''jobFee'', JNum 1), (''requiredFunds'', JBool True)])"
  by (simp add: ex_json_parse_def)

lemma ex_json_parse_plain:
  "ex_json_parse ex_descriptor_plain =
     Inr (JObj [(''name'', JStr ''svc''), (''description'', JStr ''A service''),
                (''jobFee'', JNum 1), (''requiredFunds'', JBool False)])"
  by (simp add: ex_json_parse_def ex_descriptor_plain_def ex_descriptor_funds_def)


lemma ex_load_fresh:
  assumes "ex_json_parse d = Inr j"
    and "cache ''/app/offerings/svc/handlers.ts'' = None"
    and "export_executeJob m = Some e"
  shows "loadOffering (ex_world d s m) cache ''svc'' =
     ([IoExists ''/app/offerings/svc'', IoExists ''/app/offerings/svc/offering.json'',
       IoRead ''/app/offerings/svc/offering.json'', IoExists ''/app/offerings/svc/handlers.ts'',
       IoImport ''/app/offerings/svc/handlers.ts''],
      Inr (j, as_handlers e m),
      cache(''/app/offerings/svc/handlers.ts'' \<mapsto> Inr m))"
  using assms by (simp add: loadOffering_def dynamic_import_def Let_def ex_world_simps)



lemma ex_module_simps:
  "export_executeJob (ex_module f) = Some ex_script_execute"
  "as_handlers ex_script_execute (ex_module f) =
     \<lparr>executeJob = ex_script_execute, validateRequirements = None,
      requestAdditionalFunds = f\<rparr>"
  by (simp_all add: ex_module_def as_handlers_def)









section \<open>Properties of the pattern search\<close>

text \<open>
  The derivative-based search finds a pattern exactly when some substring of the text is
  a word of the expression, which is what \<^verbatim>\<open>pattern.test(content)\<close> decides for
  patterns without anchors, flags or back references.
\<close>

lemma words_lit: "words (lit s) = {s}"
  by (induction s) (auto simp add: lit_def)

lemma words_alternatives:
  "words (foldr (\<lambda>w r. Alt (lit w) r) ws NoMatch) = set ws"
  by (induction ws) (auto simp add: words_lit)

lemma words_Space: "words Space = set js_white_space"
  by (simp add: Space_def words_alternatives)

lemma rx_nullable_words: "rx_nullable r \<longleftrightarrow> [] \<in> words r"
  by (induction r) (auto intro: repetitions.none)

lemma words_rx_seq: "words (rx_seq r s) = words (Seq r s)"
  by (auto simp add: rx_seq_def)

lemma words_rx_alt: "words (rx_alt r s) = words (Alt r s)"
  by (auto simp add: rx_alt_def)

lemma repetitions_Cons_D:
  assumes "x \<in> repetitions A" and "x = c # w"
  shows "\<exists>u v. w = u @ v \<and> c # u \<in> A \<and> v \<in> repetitions A"
  using assms
proof (induction arbitrary: w rule: repetitions.induct)
  case none
  then show ?case by simp
next
  case (more u v)
  show ?case
  proof (cases u)
    case Nil
    with more show ?thesis by simp
  next
    case (Cons a u')
    with more.prems have "a = c" and "w = u' @ v" by simp_all
    with more.hyps Cons show ?thesis by blast
  qed
qed

lemma repetitions_Cons:
  "c # w \<in> repetitions A \<longleftrightarrow> (\<exists>u v. w = u @ v \<and> c # u \<in> A \<and> v \<in> repetitions A)"
proof
  assume "c # w \<in> repetitions A"
  then show "\<exists>u v. w = u @ v \<and> c # u \<in> A \<and> v \<in> repetitions A"
    by (rule repetitions_Cons_D) simp
next
  assume "\<exists>u v. w = u @ v \<and> c # u \<in> A \<and> v \<in> repetitions A"
  then obtain u v where "w = u @ v" "c # u \<in> A" "v \<in> repetitions A" by blast
  then show "c # w \<in> repetitions A"
    using repetitions.more [of "c # u" A v] by simp
qed

lemma words_rx_deriv: "words (rx_deriv c r) = {w. c # w \<in> words r}"
proof (induction r)
  case (Seq r s)
  then show ?case
    by (auto simp add: words_rx_seq words_rx_alt rx_nullable_words Cons_eq_append_conv)
next
  case (Star r)
  then show ?case
    by (auto simp add: words_rx_seq repetitions_Cons)
qed (auto simp add: words_rx_alt)

lemma matches_prefix_words:
  "matches_prefix r s \<longleftrightarrow> (\<exists>u v. s = u @ v \<and> u \<in> words r)"
proof (induction s arbitrary: r)
  case Nil
  then show ?case by (simp add: rx_nullable_words)
next
  case (Cons c cs)
  have "(\<exists>u v. c # cs = u @ v \<and> u \<in> words r) \<longleftrightarrow>
        [] \<in> words r \<or> (\<exists>u v. cs = u @ v \<and> c # u \<in> words r)"
    by (auto simp add: Cons_eq_append_conv)
  moreover have "r = NoMatch \<Longrightarrow> words r = {}" by simp
  ultimately show ?case
    using Cons [of "rx_deriv c r"] by (auto simp add: rx_nullable_words words_rx_deriv)
qed

lemma rx_test_words:
  "rx_test r s \<longleftrightarrow> (\<exists>u x v. s = u @ x @ v \<and> x \<in> words r)"
proof (induction s)
  case Nil
  then show ?case by (simp add: rx_nullable_words)
next
  case (Cons c cs)
  have "(\<exists>u x v. c # cs = u @ x @ v \<and> x \<in> words r) \<longleftrightarrow>
        (\<exists>x v. c # cs = x @ v \<and> x \<in> words r) \<or> (\<exists>u x v. cs = u @ x @ v \<and> x \<in> words r)"
    (is "?L \<longleftrightarrow> ?A \<or> ?B")
  proof
    assume ?L
    then obtain u x v where e: "c # cs = u @ x @ v" and x: "x \<in> words r" by blast
    show "?A \<or> ?B"
    proof (cases u)
      case Nil
      with e x show ?thesis by auto
    next
      case (Cons a u')
      with e have "cs = u' @ x @ v" by simp
      with x show ?thesis by blast
    qed
  next
    assume "?A \<or> ?B"
    then show ?L
    proof
      assume ?A
      then obtain x v where "c # cs = [] @ x @ v" "x \<in> words r" by auto
      then show ?L by blast
    next
      assume ?B
      then obtain u x v where "cs = u @ x @ v" "x \<in> words r" by blast
      then have "c # cs = (c # u) @ x @ v" by simp
      with \<open>x \<in> words r\<close> show ?L by blast
    qed
  qed
  then show ?case
    using Cons matches_prefix_words [of r "c # cs"] by simp
qed

section \<open>Properties of the contract between descriptor and handlers\<close>

lemma push_warning_simps:
  "errors (push_warning msg r) = errors r"
  "valid (push_warning msg r) = valid r"
  "warnings (push_warning msg r) = warnings r @ [msg]"
  by (simp_all add: push_warning_def)

lemma validateOfferingJson_no_errors:
  assumes "validateOfferingJson w filePath = Inr r" and "errors r = []"
  shows "\<exists>source json. readFileSync w filePath = Inr source \<and> JSON_parse w source = Inr json
           \<and> \<not> nullish json \<and> violated_rules json = [] \<and> valid r"
proof -
  from assms have e: "existsSync w filePath"
    by (auto simp add: validateOfferingJson_def Let_def push_error_simps split: if_splits)
  from assms e obtain source where s: "readFileSync w filePath = Inr source"
    by (cases "readFileSync w filePath")
       (auto simp add: validateOfferingJson_def Let_def push_error_simps)
  from assms e s obtain json where j: "JSON_parse w source = Inr json"
    by (cases "JSON_parse w source")
       (auto simp add: validateOfferingJson_def Let_def push_error_simps)
  from assms e s j have n: "\<not> nullish json"
    by (auto simp add: validateOfferingJson_def Let_def split: if_splits)
  from validateOfferingJson_parsed [OF e s j n] assms
  have "violated_rules json = [] \<and> valid r" by auto
  with s j n show ?thesis by blast
qed

lemma validateHandlers_no_errors:
  assumes "validateHandlers w filePath (JBool b) = Inr r" and "errors r = []"
  shows "\<exists>source. readFileSync w filePath = Inr source
           \<and> (b \<longleftrightarrow> some_test requestAdditionalFundsPatterns source)"
proof -
  from assms have e: "existsSync w filePath"
    by (auto simp add: validateHandlers_def Let_def push_error_simps split: if_splits)
  from assms e obtain source where s: "readFileSync w filePath = Inr source"
    by (cases "readFileSync w filePath") (auto simp add: validateHandlers_def Let_def)
  from assms e s have "b \<longleftrightarrow> some_test requestAdditionalFundsPatterns source"
    by (cases b)
       (auto simp add: validateHandlers_def Let_def push_error_simps push_warning_simps
          split: if_splits)
  with s show ?thesis by blast
qed

lemma create_validate_passes:
  assumes "create_validate w dir = Inr ([], ws)"
  shows "\<exists>source json handlers_source b.
           readFileSync w (path_join w [dir, ''offering.json'']) = Inr source
         \<and> JSON_parse w source = Inr json
         \<and> readFileSync w (path_join w [dir, ''handlers.ts'']) = Inr handlers_source
         \<and> get_prop json ''requiredFunds'' = JBool b
         \<and> (b \<longleftrightarrow> some_test requestAdditionalFundsPatterns handlers_source)"
proof -
  let ?jp = "path_join w [dir, ''offering.json'']"
  let ?hp = "path_join w [dir, ''handlers.ts'']"
  from assms obtain jr where jr: "validateOfferingJson w ?jp = Inr jr"
    by (cases "validateOfferingJson w ?jp") (auto simp add: create_validate_def Let_def)
  let ?po = "if valid jr
             then (case readFileSync w ?jp of Inl err \<Rightarrow> Inl err
                   | Inr source \<Rightarrow> JSON_parse w source)
             else Inr JNull"
  from assms jr obtain po where po: "?po = Inr po"
    by (cases ?po) (auto simp add: create_validate_def Let_def)
  from assms jr po obtain hr
    where hr: "validateHandlers w ?hp (opt_prop po ''requiredFunds'') = Inr hr"
      and nil: "errors jr @ errors hr = []"
    by (cases "validateHandlers w ?hp (opt_prop po ''requiredFunds'')")
       (auto simp add: create_validate_def Let_def)
  from nil have ej: "errors jr = []" and eh: "errors hr = []" by simp_all
  from validateOfferingJson_no_errors [OF jr ej] obtain source json
    where s: "readFileSync w ?jp = Inr source" and j: "JSON_parse w source = Inr json"
      and n: "\<not> nullish json" and v: "violated_rules json = []" and ok: "valid jr"
    by blast
  from po ok s j have pj: "po = json" by simp
  from v have "requiredFunds_violations json = []" by (simp add: violated_rules_def)
  then obtain b where b: "get_prop json ''requiredFunds'' = JBool b"
    by (cases "get_prop json ''requiredFunds''")
       (auto simp add: requiredFunds_violations_def)
  from hr pj n b have "validateHandlers w ?hp (JBool b) = Inr hr"
    by (simp add: opt_prop_def)
  from validateHandlers_no_errors [OF this eh] s j b show ?thesis by blast
qed

lemma processJob_contract:
  assumes "outcome (loadOffering w cache offeringName) = Inr (config, handlers)"
    and "\<not> nullish config"
    and "validation_passes handlers jobRequest"
  shows "processJob w cache jobId offeringName jobRequest =
           accept_and_fund jobId config handlers jobRequest"
  using assms
  by (auto simp add: processJob_def outcome_def validation_passes_def
        split: option.splits prod.splits sum.splits)

text \<open>
  C1 (contract law), as amended.  At registration, \<^verbatim>\<open>create\<close> collects no error only if
  the descriptor's \<^verbatim>\<open>requiredFunds\<close> is a boolean that is true exactly when the text of
  \<^verbatim>\<open>handlers.ts\<close> matches one of the export patterns of \<^verbatim>\<open>requestAdditionalFunds\<close>: both
  directions of a mismatch are registration errors.  At run time, \<^verbatim>\<open>processJob\<close> checks the
  law again on the loaded offering: once validation has let the job through, a mismatch
  in either direction ends the pass with the job accepted and then rejected, nothing
  being executed or delivered.
\<close>

theorem contract_law_enforcement:
  \<open>(create_validate w dir = Inr ([], ws) \<longrightarrow>
      (\<exists>source json handlers_source b.
           readFileSync w (path_join w [dir, ''offering.json'']) = Inr source
         \<and> JSON_parse w source = Inr json
         \<and> readFileSync w (path_join w [dir, ''handlers.ts'']) = Inr handlers_source
         \<and> get_prop json ''requiredFunds'' = JBool b
         \<and> (b \<longleftrightarrow> some_test requestAdditionalFundsPatterns handlers_source)))
   \<and> (outcome (loadOffering w' cache offeringName) = Inr (config, handlers) \<and> \<not> nullish config
        \<and> validation_passes handlers jobRequest \<longrightarrow>
      (truthy (get_prop config ''requiredFunds'') \<and> requestAdditionalFunds handlers = None \<longrightarrow>
         processJob w' cache jobId offeringName jobRequest =
           ([Accept jobId,
             Reject jobId ''Offering requires funds but "requestAdditionalFunds" is missing''],
            None))
    \<and> (\<not> truthy (get_prop config ''requiredFunds'') \<and> requestAdditionalFunds handlers \<noteq> None \<longrightarrow>
         processJob w' cache jobId offeringName jobRequest =
           ([Accept jobId,
             Reject jobId
               ''Offering does not require funds but "requestAdditionalFunds" was provided''],
            None)))\<close>
  using create_validate_passes [of w dir ws]
    processJob_contract [of w' cache offeringName config handlers jobRequest jobId]
  by (auto simp add: accept_and_fund_def)

lemma ex_source_funds_tests:
  "some_test executeJobPatterns ex_source_funds"
  "\<not> some_test validateRequirementsPatterns ex_source_funds"
  "some_test requestAdditionalFundsPatterns ex_source_funds"
  by code_simp+

lemma ex_source_plain_tests:
  "some_test executeJobPatterns ex_source_plain"
  "\<not> some_test validateRequirementsPatterns ex_source_plain"
  "\<not> some_test requestAdditionalFundsPatterns ex_source_plain"
  by code_simp+

lemma ex_funds_violated:
  "violated_rules (JObj [(''name'', JStr ''svc''), (''description'', JStr ''A service''),
                         (''jobFee'', JNum 1), (''requiredFunds'', JBool b)]) = []"
  by (simp add: violated_rules_def name_violations_def description_violations_def
        jobFee_violations_def requiredFunds_violations_def ex_trims)

lemma ex_create_funds:
  \<open>create_validate (ex_world ex_descriptor_funds ex_source_funds (ex_module (Some ex_funds)))
     ''/app/offerings/svc'' =
     Inr ([], [''Optional: "validateRequirements" handler not found.''])\<close>
proof -
  let ?w = "ex_world ex_descriptor_funds ex_source_funds (ex_module (Some ex_funds))"
  let ?j = "JObj [(''name'', JStr ''svc''), (''description'', JStr ''A service''),
                  (''jobFee'', JNum 1), (''requiredFunds'', JBool True)]"
  have "\<exists>r. validateOfferingJson ?w ''/app/offerings/svc/offering.json'' = Inr r
           \<and> errors r = map sell_message (violated_rules ?j)
           \<and> valid r = (violated_rules ?j = [])
           \<and> warnings r = []"
    by (rule validateOfferingJson_parsed [where source = ex_descriptor_funds])
       (simp_all add: ex_world_simps ex_json_parse_funds)
  then obtain r where r: "validateOfferingJson ?w ''/app/offerings/svc/offering.json'' = Inr r"
    "errors r = []" "valid r" "warnings r = []"
    by (auto simp add: ex_funds_violated)
  have h: \<open>validateHandlers ?w ''/app/offerings/svc/handlers.ts'' (JBool True) =
             Inr (push_warning ''Optional: "validateRequirements" handler not found.''
                    \<lparr>valid = True, errors = [], warnings = []\<rparr>)\<close>
    by (simp add: validateHandlers_def Let_def ex_world_simps ex_source_funds_tests)
  show ?thesis
    by (simp add: create_validate_def Let_def r h ex_world_simps ex_json_parse_funds
          opt_prop_def push_warning_simps)
qed

theorem contract_law_enforcement_witness:
  \<open>create_validate (ex_world ex_descriptor_funds ex_source_funds (ex_module (Some ex_funds)))
     ''/app/offerings/svc'' =
     Inr ([], [''Optional: "validateRequirements" handler not found.''])
   \<and> (\<exists>json b. ex_json_parse ex_descriptor_funds = Inr json
         \<and> get_prop json ''requiredFunds'' = JBool b
         \<and> (b \<longleftrightarrow> some_test requestAdditionalFundsPatterns ex_source_funds))
   \<and> processJob (ex_world ex_descriptor_funds ex_source_plain (ex_module None)) no_modules
        ''job_1'' ''svc'' (JObj []) =
       ([Accept ''job_1'',
         Reject ''job_1'' ''Offering requires funds but "requestAdditionalFunds" is missing''],
        None)
   \<and> processJob (ex_world ex_descriptor_plain ex_source_funds (ex_module (Some ex_funds)))
        no_modules ''job_1'' ''svc'' (JObj []) =
       ([Accept ''job_1'',
         Reject ''job_1''
           ''Offering does not require funds but "requestAdditionalFunds" was provided''],
        None)\<close>
proof -
  let ?w = "ex_world ex_descriptor_funds ex_source_funds (ex_module (Some ex_funds))"
  let ?m = "ex_world ex_descriptor_funds ex_source_plain (ex_module None)"
  let ?p = "ex_world ex_descriptor_plain ex_source_funds (ex_module (Some ex_funds))"
  let ?jt = "JObj [(''name'', JStr ''svc''), (''description'', JStr ''A service''),
                   (''jobFee'', JNum 1), (''requiredFunds'', JBool True)]"
  let ?jf = "JObj [(''name'', JStr ''svc''), (''description'', JStr ''A service''),
                   (''jobFee'', JNum 1), (''requiredFunds'', JBool False)]"
  let ?hm = "\<lparr>executeJob = ex_script_execute, validateRequirements = None,
              requestAdditionalFunds = None\<rparr>"
  let ?hp = "\<lparr>executeJob = ex_script_execute, validateRequirements = None,
              requestAdditionalFunds = Some ex_funds\<rparr>"
  have m: "outcome (loadOffering ?m no_modules ''svc'') = Inr (?jt, ?hm) \<and> \<not> nullish ?jt
           \<and> validation_passes ?hm (JObj [])
           \<and> truthy (get_prop ?jt ''requiredFunds'') \<and> requestAdditionalFunds ?hm = None"
    by (simp add: ex_load_fresh [OF ex_json_parse_funds] ex_module_simps no_modules_def
          outcome_def validation_passes_def)
  have p: "outcome (loadOffering ?p no_modules ''svc'') = Inr (?jf, ?hp) \<and> \<not> nullish ?jf
           \<and> validation_passes ?hp (JObj [])
           \<and> \<not> truthy (get_prop ?jf ''requiredFunds'') \<and> requestAdditionalFunds ?hp \<noteq> None"
    by (simp add: ex_load_fresh [OF ex_json_parse_plain] ex_module_simps no_modules_def
          outcome_def validation_passes_def)
  show ?thesis
    using ex_create_funds m p
      contract_law_enforcement [where w = ?w and dir = "''/app/offerings/svc''"
        and ws = "[''Optional: '' @ [CHR 0x22] @ ''validateRequirements'' @ [CHR 0x22] @
                   '' handler not found.'']"
        and w' = ?m and cache = no_modules and offeringName = "''svc''" and config = ?jt
        and handlers = ?hm
        and jobRequest = "JObj []" and jobId = "''job_1''"]
      contract_law_enforcement [where w = ?w and dir = "''/app/offerings/svc''"
        and ws = "[''Optional: '' @ [CHR 0x22] @ ''validateRequirements'' @ [CHR 0x22] @
                   '' handler not found.'']"
        and w' = ?p and cache = no_modules and offeringName = "''svc''" and config = ?jf
        and handlers = ?hp
        and jobRequest = "JObj []" and jobId = "''job_1''"]
    by (auto simp add: ex_world_simps ex_json_parse_funds)
qed

text \<open>
  An offering with \<^verbatim>\<open>requiredFunds\<close> true and no \<^verbatim>\<open>requestAdditionalFunds\<close> export: the
  resolution succeeds, and the mismatch surfaces while the job is processed, as a reject
  that follows the accept.
\<close>

theorem contract_law_counterexample:
  \<open>resolved (outcome (loadOffering
                        (ex_world ex_descriptor_funds ex_source_plain (ex_module None))
                        no_modules ''svc''))
   \<and> get_prop (loaded_config
                 (outcome (loadOffering
                             (ex_world ex_descriptor_funds ex_source_plain (ex_module None))
                             no_modules ''svc'')))
        ''requiredFunds'' = JBool True
   \<and> \<not> loaded_funds_handler
          (outcome (loadOffering
                      (ex_world ex_descriptor_funds ex_source_plain (ex_module None))
                      no_modules ''svc''))
   \<and> processJob (ex_world ex_descriptor_funds ex_source_plain (ex_module None)) no_modules
        ''job_1'' ''svc'' (JObj []) =
       ([Accept ''job_1'',
         Reject ''job_1'' ''Offering requires funds but "requestAdditionalFunds" is missing''],
        None)\<close>
  by (simp add: ex_load_fresh [OF ex_json_parse_funds] ex_module_simps no_modules_def
        outcome_def resolved_def loaded_config_def loaded_funds_handler_def
        processJob_def accept_and_fund_def)

text \<open>
  At registration both directions of a mismatch are reported, each with its own message.
\<close>

lemma registration_rejects_mismatch:
  \<open>create_validate (ex_world ex_descriptor_funds ex_source_plain (ex_module None))
     ''/app/offerings/svc'' =
     Inr ([''"requiredFunds" is true '' @ [CHR 0xE2, CHR 0x80, CHR 0x94] @
           '' handlers.ts must export "requestAdditionalFunds"''],
          [''Optional: "validateRequirements" handler not found.''])\<close>
  \<open>create_validate (ex_world ex_descriptor_plain ex_source_funds (ex_module (Some ex_funds)))
     ''/app/offerings/svc'' =
     Inr ([''"requiredFunds" is false '' @ [CHR 0xE2, CHR 0x80, CHR 0x94] @
           '' handlers.ts must NOT export "requestAdditionalFunds"''],
          [''Optional: "validateRequirements" handler not found.''])\<close>
proof -
  let ?m = "ex_world ex_descriptor_funds ex_source_plain (ex_module None)"
  let ?p = "ex_world ex_descriptor_plain ex_source_funds (ex_module (Some ex_funds))"
  let ?jt = "JObj [(''name'', JStr ''svc''), (''description'', JStr ''A service''),
                   (''jobFee'', JNum 1), (''requiredFunds'', JBool True)]"
  let ?jf = "JObj [(''name'', JStr ''svc''), (''description'', JStr ''A service''),
                   (''jobFee'', JNum 1), (''requiredFunds'', JBool False)]"
  have "\<exists>r. validateOfferingJson ?m ''/app/offerings/svc/offering.json'' = Inr r
           \<and> errors r = map sell_message (violated_rules ?jt)
           \<and> valid r = (violated_rules ?jt = [])
           \<and> warnings r = []"
    by (rule validateOfferingJson_parsed [where source = ex_descriptor_funds])
       (simp_all add: ex_world_simps ex_json_parse_funds)
  then obtain r where r: "validateOfferingJson ?m ''/app/offerings/svc/offering.json'' = Inr r"
    "errors r = []" "valid r" "warnings r = []"
    by (auto simp add: ex_funds_violated)
  have "\<exists>r. validateOfferingJson ?p ''/app/offerings/svc/offering.json'' = Inr r
           \<and> errors r = map sell_message (violated_rules ?jf)
           \<and> valid r = (violated_rules ?jf = [])
           \<and> warnings r = []"
    by (rule validateOfferingJson_parsed [where source = ex_descriptor_plain])
       (simp_all add: ex_world_simps ex_json_parse_plain)
  then obtain q where q: "validateOfferingJson ?p ''/app/offerings/svc/offering.json'' = Inr q"
    "errors q = []" "valid q" "warnings q = []"
    by (auto simp add: ex_funds_violated)
  show \<open>create_validate ?m ''/app/offerings/svc'' =
     Inr ([''"requiredFunds" is true '' @ [CHR 0xE2, CHR 0x80, CHR 0x94] @
           '' handlers.ts must export "requestAdditionalFunds"''],
          [''Optional: "validateRequirements" handler not found.''])\<close>
    by (simp add: create_validate_def validateHandlers_def Let_def r ex_world_simps
          ex_json_parse_funds opt_prop_def push_warning_simps push_error_simps
          ex_source_plain_tests)
  show \<open>create_validate ?p ''/app/offerings/svc'' =
     Inr ([''"requiredFunds" is false '' @ [CHR 0xE2, CHR 0x80, CHR 0x94] @
           '' handlers.ts must NOT export "requestAdditionalFunds"''],
          [''Optional: "validateRequirements" handler not found.''])\<close>
    by (simp add: create_validate_def validateHandlers_def Let_def q ex_world_simps
          ex_json_parse_plain opt_prop_def push_warning_simps push_error_simps
          ex_source_funds_tests)
qed

end
